theory Spec2Isabelle
  imports Complex_Main "HOL-Library.Word" "HOL-Library.List_Lexorder"
begin

section \<open>Topology attributes of MDAnalysis (core/topologyattrs.py)\<close>

text \<open>
  A shallow embedding of \<^verbatim>\<open>package/MDAnalysis/core/topologyattrs.py\<close>.
  Every method of the module is a function from the attribute object (and its arguments)
  to a pair: what the call produces (\<open>Inl e\<close> when the exception \<open>e\<close> propagates,
  \<open>Inr r\<close> when it returns \<open>r\<close>) and the attribute object after the call.
\<close>

subsection \<open>Exceptions, stored values, groups, results\<close>

datatype error =
  NoDataError | NotImplementedError | IndexError | ValueError | TypeError | AttributeError

text \<open>
  An entry of \<^verbatim>\<open>self.values\<close>: a number (ids, resids, masses, charges; floating-point
  rounding is not modelled, numbers are reals), a string (names, types, segids) or a
  tuple of zero-based atom indices (bonds, angles, dihedrals, impropers).
\<close>

datatype val = Num (the_Num: real) | Str string | Tup "nat list"

fun is_Num :: "val \<Rightarrow> bool" where
  "is_Num (Num x) = True"
| "is_Num (Str s) = False"
| "is_Num (Tup t) = False"

text \<open>
  A group as the module uses it: \<^verbatim>\<open>group.level\<close>, the index array \<^verbatim>\<open>group._ix\<close>
  (zero-based, so natural numbers), the universe handle \<^verbatim>\<open>group._u\<close>;
  \<^verbatim>\<open>len(group)\<close> is the number of its indices.
\<close>

record group =
  level :: string
  ix :: "nat list"
  univ :: nat

datatype ret =
  PyNone
  | Array "val list"
  | TopologyGroup "nat list list" nat string

text \<open>
  The adjacency map \<^verbatim>\<open>bd = defaultdict(list)\<close>: keys in insertion order, each with
  the list of tuples appended under it.
\<close>

type_synonym bonddict = "(nat \<times> nat list list) list"

datatype cls =
  TopologyAttr | AtomAttr | Atomids | Atomnames | Atomtypes | Masses | Charges
  | ResidueAttr | Resids | Resnames | SegmentAttr | Segids
  | Bonds | Angles | Dihedrals | Impropers

text \<open>
  What holds \<^verbatim>\<open>self.values\<close>: a plain Python list (the docstring of \<^verbatim>\<open>Bonds\<close>:
  a list of tuples) or a NumPy array (the docstrings of the other classes). An array has
  a dtype; \<open>NdArray c\<close> carries its cast \<open>c\<close>: what a value becomes when it is stored
  into the array (a string cut to the item width, a float truncated in an integer array,
  the value itself in an array of objects), or the error of the conversion.
\<close>

datatype storage = PyList | NdArray "val \<Rightarrow> error + val"

text \<open>
  An attribute object: its class, the entries of \<^verbatim>\<open>self.values\<close> and what holds them,
  \<^verbatim>\<open>self.top\<close> (\<open>None\<close> until the owning topology attaches itself; \<open>Some s\<close> holds
  the state of its translation table) and the entry of \<^verbatim>\<open>self._cache\<close> under the key
  \<^verbatim>\<open>'bd'\<close> (\<open>None\<close>: no such entry).
\<close>

record 's attr =
  cls :: cls
  vals :: "val list"
  store :: storage
  topo :: "'s option"
  cache :: "bonddict option"

type_synonym 's outcome = "(error + ret) \<times> 's attr"

definition bind_err :: "error + 'a \<Rightarrow> ('a \<Rightarrow> error + 'b) \<Rightarrow> error + 'b" where
  "bind_err m f = (case m of Inl e \<Rightarrow> Inl e | Inr x \<Rightarrow> f x)"

subsection \<open>What the module takes from outside\<close>

text \<open>
  The translation table \<^verbatim>\<open>self.top.tt\<close> is not part of the module: its methods are
  parameters, each reading (or, for \<^verbatim>\<open>move_atom\<close>, replacing) the table's state.
  \<^verbatim>\<open>move_atom\<close> receives the \<^verbatim>\<open>int32\<close> array built by \<^verbatim>\<open>Resids.set_atoms\<close>.
  \<open>uninit\<close> is the content of the memory that \<^verbatim>\<open>np.empty\<close> hands out.
\<close>

record 's externals =
  a2r :: "'s \<Rightarrow> nat list \<Rightarrow> error + nat list"
  a2s :: "'s \<Rightarrow> nat list \<Rightarrow> error + nat list"
  r2a_1d :: "'s \<Rightarrow> nat list \<Rightarrow> error + nat list"
  r2a_2d :: "'s \<Rightarrow> nat list \<Rightarrow> error + nat list list"
  r2s :: "'s \<Rightarrow> nat list \<Rightarrow> error + nat list"
  s2a_1d :: "'s \<Rightarrow> nat list \<Rightarrow> error + nat list"
  s2a_2d :: "'s \<Rightarrow> nat list \<Rightarrow> error + nat list list"
  s2r_1d :: "'s \<Rightarrow> nat list \<Rightarrow> error + nat list"
  move_atom :: "'s \<Rightarrow> nat list \<Rightarrow> int list \<Rightarrow> error + 's"
  uninit :: "nat \<Rightarrow> real"

text \<open>\<^verbatim>\<open>self.top.tt.f(...)\<close>: on an attribute with \<^verbatim>\<open>top = None\<close> the attribute access fails.\<close>

definition tt_call :: "'s attr \<Rightarrow> ('s \<Rightarrow> error + 'a) \<Rightarrow> error + 'a" where
  "tt_call self f = (case topo self of None \<Rightarrow> Inl AttributeError | Some s \<Rightarrow> f s)"

subsection \<open>NumPy indexing\<close>

text \<open>\<^verbatim>\<open>a[js]\<close> on an array, with an index array: one entry per index, \<^verbatim>\<open>IndexError\<close> out of range.\<close>

definition fancy_get :: "'a list \<Rightarrow> nat list \<Rightarrow> error + 'a list" where
  "fancy_get xs js =
     (if list_all (\<lambda>j. j < length xs) js then Inr (map (\<lambda>j. xs ! j) js) else Inl IndexError)"

text \<open>The values written are first converted to the dtype of the array, one by one.\<close>

fun cast_all :: "('a \<Rightarrow> error + 'a) \<Rightarrow> 'a list \<Rightarrow> error + 'a list" where
  "cast_all c [] = Inr []"
| "cast_all c (x # xs) =
     bind_err (c x) (\<lambda>y. bind_err (cast_all c xs) (\<lambda>ys. Inr (y # ys)))"

text \<open>
  \<^verbatim>\<open>a[js] = v\<close> on an array with cast \<open>c\<close>: the values are converted; then \<open>v\<close> has
  one value per index or is a single value given to every index (anything else is a
  shape mismatch); the indices are checked before anything is stored; the stores happen
  in order, so a repeated index keeps the last value.
\<close>

definition fancy_set :: "('a \<Rightarrow> error + 'a) \<Rightarrow> 'a list \<Rightarrow> nat list \<Rightarrow> 'a list \<Rightarrow> error + 'a list" where
  "fancy_set c xs js v =
     bind_err (cast_all c v) (\<lambda>w.
       if length w \<noteq> length js \<and> length w \<noteq> 1 then Inl ValueError
       else if \<not> list_all (\<lambda>j. j < length xs) js then Inl IndexError
       else Inr (fold (\<lambda>(j, x) ys. ys[j := x])
                   (zip js (if length w = length js then w else replicate (length js) (hd w))) xs))"

text \<open>
  \<^verbatim>\<open>self.values[js]\<close> and \<^verbatim>\<open>self.values[js] = v\<close> with an index array \<open>js\<close>: a plain
  list cannot be subscripted by an array and raises TypeError.
\<close>

definition subscript :: "'s attr \<Rightarrow> nat list \<Rightarrow> error + val list" where
  "subscript self js =
     (case store self of
        PyList \<Rightarrow> Inl TypeError
      | NdArray c \<Rightarrow> fancy_get (vals self) js)"

definition assign :: "'s attr \<Rightarrow> nat list \<Rightarrow> val list \<Rightarrow> error + val list" where
  "assign self js v =
     (case store self of
        PyList \<Rightarrow> Inl TypeError
      | NdArray c \<Rightarrow> fancy_set c (vals self) js v)"

text \<open>\<^verbatim>\<open>a.sum()\<close> of the selected entries: numbers add up, other entries do not.\<close>

definition np_sum :: "val list \<Rightarrow> error + real" where
  "np_sum xs = (if list_all is_Num xs then Inr (sum_list (map the_Num xs)) else Inl TypeError)"

text \<open>Storing an index into the \<^verbatim>\<open>int32\<close> array \<^verbatim>\<open>rix\<close> keeps its low 32 bits, signed.\<close>

definition to_int32 :: "nat \<Rightarrow> int" where
  "to_int32 k = sint (word_of_nat k :: 32 word)"

subsection \<open>class TopologyAttr\<close>

text \<open>
  \<^verbatim>\<open>__init__\<close> stores the values it is given; \<^verbatim>\<open>top\<close> is the class attribute
  \<^verbatim>\<open>None\<close>. \<^verbatim>\<open>Bonds.__init__\<close> also sets \<^verbatim>\<open>_cache = dict()\<close>, which has no entry
  under \<^verbatim>\<open>'bd'\<close>: the same object in this model. \<open>init\<close> is the call with a NumPy
  array of objects (entries are stored as they are), \<open>init_list\<close> the call with a plain
  list; an array of another dtype is \<open>(init c values)\<lparr>store := NdArray cast\<rparr>\<close>.
\<close>

definition init :: "cls \<Rightarrow> val list \<Rightarrow> 's attr" where
  "init c values =
     \<lparr>cls = c, vals = values, store = NdArray Inr, topo = None, cache = None\<rparr>"

definition init_list :: "cls \<Rightarrow> val list \<Rightarrow> 's attr" where
  "init_list c values =
     \<lparr>cls = c, vals = values, store = PyList, topo = None, cache = None\<rparr>"

definition TopologyAttr_len :: "'s attr \<Rightarrow> (error + nat) \<times> 's attr" where
  "TopologyAttr_len self = (Inr (length (vals self)), self)"

definition TopologyAttr_get_atoms :: "'s attr \<Rightarrow> group \<Rightarrow> 's outcome" where
  "TopologyAttr_get_atoms self ag = (Inl NoDataError, self)"

definition TopologyAttr_set_atoms :: "'s attr \<Rightarrow> group \<Rightarrow> val list \<Rightarrow> 's outcome" where
  "TopologyAttr_set_atoms self ag values = (Inl NotImplementedError, self)"

definition TopologyAttr_get_residues :: "'s attr \<Rightarrow> group \<Rightarrow> 's outcome" where
  "TopologyAttr_get_residues self rg = (Inl NoDataError, self)"

definition TopologyAttr_set_residues :: "'s attr \<Rightarrow> group \<Rightarrow> val list \<Rightarrow> 's outcome" where
  "TopologyAttr_set_residues self rg values = (Inl NotImplementedError, self)"

definition TopologyAttr_get_segments :: "'s attr \<Rightarrow> group \<Rightarrow> 's outcome" where
  "TopologyAttr_get_segments self sg = (Inl NoDataError, self)"

definition TopologyAttr_set_segments :: "'s attr \<Rightarrow> group \<Rightarrow> val list \<Rightarrow> 's outcome" where
  "TopologyAttr_set_segments self sg values = (Inl NotImplementedError, self)"

subsection \<open>class AtomAttr(TopologyAttr), Masses, Charges\<close>

definition AtomAttr_get_atoms :: "'s attr \<Rightarrow> group \<Rightarrow> 's outcome" where
  "AtomAttr_get_atoms self ag =
     (bind_err (subscript self (ix ag)) (\<lambda>r. Inr (Array r)), self)"

definition AtomAttr_set_atoms :: "'s attr \<Rightarrow> group \<Rightarrow> val list \<Rightarrow> 's outcome" where
  "AtomAttr_set_atoms self ag values =
     (case assign self (ix ag) values of
        Inl e \<Rightarrow> (Inl e, self)
      | Inr xs \<Rightarrow> (Inr PyNone, self\<lparr>vals := xs\<rparr>))"

definition AtomAttr_get_residues :: "'s externals \<Rightarrow> 's attr \<Rightarrow> group \<Rightarrow> 's outcome" where
  "AtomAttr_get_residues E self rg =
     (bind_err (tt_call self (\<lambda>s. r2a_1d E s (ix rg))) (\<lambda>aix.
      bind_err (subscript self aix) (\<lambda>r. Inr (Array r))), self)"

definition AtomAttr_get_segments :: "'s externals \<Rightarrow> 's attr \<Rightarrow> group \<Rightarrow> 's outcome" where
  "AtomAttr_get_segments E self sg =
     (bind_err (tt_call self (\<lambda>s. s2a_1d E s (ix sg))) (\<lambda>aix.
      bind_err (subscript self aix) (\<lambda>r. Inr (Array r))), self)"

text \<open>
  The loop \<^verbatim>\<open>for i, row in enumerate(rows): out[i] = self.values[row].sum()\<close>:
  the right-hand side is evaluated first, then the store into \<open>out\<close> is checked.
\<close>

fun sum_rows :: "'s attr \<Rightarrow> real list \<Rightarrow> nat \<Rightarrow> nat list list \<Rightarrow> error + real list" where
  "sum_rows self out i [] = Inr out"
| "sum_rows self out i (row # rows) =
     bind_err (subscript self row) (\<lambda>sel.
     bind_err (np_sum sel) (\<lambda>t.
       if i < length out then sum_rows self (out[i := t]) (Suc i) rows else Inl IndexError))"

definition np_empty :: "'s externals \<Rightarrow> nat \<Rightarrow> real list" where
  "np_empty E n = map (uninit E) [0..<n]"

definition Masses_get_residues :: "'s externals \<Rightarrow> 's attr \<Rightarrow> group \<Rightarrow> 's outcome" where
  "Masses_get_residues E self rg =
     (let masses = np_empty E (length (ix rg)) in
      bind_err (tt_call self (\<lambda>s. r2a_2d E s (ix rg))) (\<lambda>resatoms.
      bind_err (sum_rows self masses 0 resatoms) (\<lambda>masses'.
        Inr (Array (map Num masses')))), self)"

definition Masses_get_segments :: "'s externals \<Rightarrow> 's attr \<Rightarrow> group \<Rightarrow> 's outcome" where
  "Masses_get_segments E self sg =
     (let masses = np_empty E (length (ix sg)) in
      bind_err (tt_call self (\<lambda>s. s2a_2d E s (ix sg))) (\<lambda>segatoms.
      bind_err (sum_rows self masses 0 segatoms) (\<lambda>masses'.
        Inr (Array (map Num masses')))), self)"

definition Charges_get_residues :: "'s externals \<Rightarrow> 's attr \<Rightarrow> group \<Rightarrow> 's outcome" where
  "Charges_get_residues E self rg =
     (let charges = np_empty E (length (ix rg)) in
      bind_err (tt_call self (\<lambda>s. r2a_2d E s (ix rg))) (\<lambda>resatoms.
      bind_err (sum_rows self charges 0 resatoms) (\<lambda>charges'.
        Inr (Array (map Num charges')))), self)"

definition Charges_get_segments :: "'s externals \<Rightarrow> 's attr \<Rightarrow> group \<Rightarrow> 's outcome" where
  "Charges_get_segments E self sg =
     (let charges = np_empty E (length (ix sg)) in
      bind_err (tt_call self (\<lambda>s. s2a_2d E s (ix sg))) (\<lambda>segatoms.
      bind_err (sum_rows self charges 0 segatoms) (\<lambda>charges'.
        Inr (Array (map Num charges')))), self)"

subsection \<open>class ResidueAttr(TopologyAttr), Resids\<close>

definition ResidueAttr_get_atoms :: "'s externals \<Rightarrow> 's attr \<Rightarrow> group \<Rightarrow> 's outcome" where
  "ResidueAttr_get_atoms E self ag =
     (bind_err (tt_call self (\<lambda>s. a2r E s (ix ag))) (\<lambda>rix.
      bind_err (subscript self rix) (\<lambda>r. Inr (Array r))), self)"

definition ResidueAttr_get_residues :: "'s attr \<Rightarrow> group \<Rightarrow> 's outcome" where
  "ResidueAttr_get_residues self rg =
     (bind_err (subscript self (ix rg)) (\<lambda>r. Inr (Array r)), self)"

definition ResidueAttr_set_residues :: "'s attr \<Rightarrow> group \<Rightarrow> val list \<Rightarrow> 's outcome" where
  "ResidueAttr_set_residues self rg values =
     (case assign self (ix rg) values of
        Inl e \<Rightarrow> (Inl e, self)
      | Inr xs \<Rightarrow> (Inr PyNone, self\<lparr>vals := xs\<rparr>))"

definition ResidueAttr_get_segments :: "'s externals \<Rightarrow> 's attr \<Rightarrow> group \<Rightarrow> 's outcome" where
  "ResidueAttr_get_segments E self sg =
     (bind_err (tt_call self (\<lambda>s. s2r_1d E s (ix sg))) (\<lambda>rix.
      bind_err (subscript self rix) (\<lambda>r. Inr (Array r))), self)"

text \<open>
  \<^verbatim>\<open>np.where(self.values == item)[0][0]\<close>: on an array the comparison is made entry by
  entry and the result is the first index holding \<open>item\<close>; a plain list compared with
  an item is just \<^verbatim>\<open>False\<close>, and there is no first index.
\<close>

definition where_first :: "'s attr \<Rightarrow> val \<Rightarrow> error + nat" where
  "where_first self item =
     (case store self of
        PyList \<Rightarrow> Inl IndexError
      | NdArray c \<Rightarrow>
          (case filter (\<lambda>k. vals self ! k = item) [0..<length (vals self)] of
             [] \<Rightarrow> Inl IndexError
           | k # ks \<Rightarrow> Inr k))"

text \<open>\<^verbatim>\<open>rix[i] = k\<close> on the \<^verbatim>\<open>int32\<close> array \<open>rix\<close>.\<close>

definition store_rix :: "int list \<Rightarrow> nat \<Rightarrow> nat \<Rightarrow> error + int list" where
  "store_rix rix i k = (if i < length rix then Inr (rix[i := to_int32 k]) else Inl IndexError)"

text \<open>\<^verbatim>\<open>try: ... except IndexError: raise NoDataError(...)\<close>\<close>

definition except_IndexError :: "error + 'a \<Rightarrow> error + 'a" where
  "except_IndexError m = (case m of Inl IndexError \<Rightarrow> Inl NoDataError | other \<Rightarrow> other)"

fun resolve_rix :: "'s attr \<Rightarrow> int list \<Rightarrow> nat \<Rightarrow> val list \<Rightarrow> error + int list" where
  "resolve_rix self rix i [] = Inr rix"
| "resolve_rix self rix i (item # resids) =
     bind_err (except_IndexError (bind_err (where_first self item) (store_rix rix i)))
       (\<lambda>rix'. resolve_rix self rix' (Suc i) resids)"

definition Resids_set_atoms :: "'s externals \<Rightarrow> 's attr \<Rightarrow> group \<Rightarrow> val list \<Rightarrow> 's outcome" where
  "Resids_set_atoms E self ag resids =
     (case resolve_rix self (replicate (length (ix ag)) 0) 0 resids of
        Inl e \<Rightarrow> (Inl e, self)
      | Inr rix \<Rightarrow>
          (case tt_call self (\<lambda>s. move_atom E s (ix ag) rix) of
             Inl e \<Rightarrow> (Inl e, self)
           | Inr s' \<Rightarrow> (Inr PyNone, self\<lparr>topo := Some s'\<rparr>)))"

subsection \<open>class SegmentAttr(TopologyAttr)\<close>

definition SegmentAttr_get_atoms :: "'s externals \<Rightarrow> 's attr \<Rightarrow> group \<Rightarrow> 's outcome" where
  "SegmentAttr_get_atoms E self ag =
     (bind_err (tt_call self (\<lambda>s. a2s E s (ix ag))) (\<lambda>six.
      bind_err (subscript self six) (\<lambda>r. Inr (Array r))), self)"

definition SegmentAttr_get_residues :: "'s externals \<Rightarrow> 's attr \<Rightarrow> group \<Rightarrow> 's outcome" where
  "SegmentAttr_get_residues E self rg =
     (bind_err (tt_call self (\<lambda>s. r2s E s (ix rg))) (\<lambda>six.
      bind_err (subscript self six) (\<lambda>r. Inr (Array r))), self)"

definition SegmentAttr_get_segments :: "'s attr \<Rightarrow> group \<Rightarrow> 's outcome" where
  "SegmentAttr_get_segments self sg =
     (bind_err (subscript self (ix sg)) (\<lambda>r. Inr (Array r)), self)"

definition SegmentAttr_set_segments :: "'s attr \<Rightarrow> group \<Rightarrow> val list \<Rightarrow> 's outcome" where
  "SegmentAttr_set_segments self sg values =
     (case assign self (ix sg) values of
        Inl e \<Rightarrow> (Inl e, self)
      | Inr xs \<Rightarrow> (Inr PyNone, self\<lparr>vals := xs\<rparr>))"

subsection \<open>class Bonds(AtomAttr), Angles(Bonds), Dihedrals(Bonds), Impropers(Bonds)\<close>

text \<open>
  \<^verbatim>\<open>bd[a]\<close> on a \<^verbatim>\<open>defaultdict(list)\<close>: a key that is missing is inserted with an
  empty list, so a read can change the dictionary.
\<close>

definition dd_get :: "bonddict \<Rightarrow> nat \<Rightarrow> nat list list \<times> bonddict" where
  "dd_get bd a = (case map_of bd a of Some l \<Rightarrow> (l, bd) | None \<Rightarrow> ([], bd @ [(a, [])]))"

text \<open>\<^verbatim>\<open>bd[a].append(b)\<close>\<close>

fun dd_append :: "bonddict \<Rightarrow> nat \<Rightarrow> nat list \<Rightarrow> bonddict" where
  "dd_append [] a b = [(a, [b])]"
| "dd_append ((k, l) # bd) a b =
     (if k = a then (k, l @ [b]) # bd else (k, l) # dd_append bd a b)"

text \<open>
  \<^verbatim>\<open>if b[0] < b[-1]: b = b[::-1]\<close>; \<^verbatim>\<open>b[0]\<close> fails on an empty tuple, and an entry
  that is not a tuple of indices cannot be subscripted.
\<close>

fun orient :: "val \<Rightarrow> error + nat list" where
  "orient (Tup b) =
     (if b = [] then Inl IndexError else Inr (if hd b < last b then rev b else b))"
| "orient (Num x) = Inl TypeError"
| "orient (Str s) = Inl TypeError"

text \<open>The body of \<^verbatim>\<open>_bondDict\<close>: the loop over \<^verbatim>\<open>self.values\<close>, starting from \<open>bd = []\<close>.\<close>

fun build_bd :: "val list \<Rightarrow> bonddict \<Rightarrow> error + bonddict" where
  "build_bd [] bd = Inr bd"
| "build_bd (v # vs) bd =
     (case orient v of
        Inl e \<Rightarrow> Inl e
      | Inr b \<Rightarrow> build_bd vs (fold (\<lambda>a d. dd_append d a b) b bd))"

text \<open>
  Modelled from the spec: the caching utility \<^verbatim>\<open>cached\<close> of \<^verbatim>\<open>lib.util\<close>, which is
  not in this module (\<open>lazily built once, cached on first access\<close>): the value stored
  under the key is returned when there is one; otherwise the body runs and its result is
  stored. A body that raises stores nothing.
\<close>

definition Bonds_bondDict :: "'s attr \<Rightarrow> (error + bonddict) \<times> 's attr" where
  "Bonds_bondDict self =
     (case cache self of
        Some bd \<Rightarrow> (Inr bd, self)
      | None \<Rightarrow>
          (case build_bd (vals self) [] of
             Inl e \<Rightarrow> (Inl e, self)
           | Inr bd \<Rightarrow> (Inr bd, self\<lparr>cache := Some bd\<rparr>)))"

definition Bonds_len :: "'s attr \<Rightarrow> (error + nat) \<times> 's attr" where
  "Bonds_len self =
     (case Bonds_bondDict self of
        (Inl e, self') \<Rightarrow> (Inl e, self')
      | (Inr bd, self') \<Rightarrow> (Inr (length bd), self'))"

text \<open>
  \<^verbatim>\<open>[self._bondDict[a] for a in ag._ix]\<close>: every element reads the property (built at
  the first read) and then the dictionary, which is the cached object itself.
\<close>

fun bonds_of :: "'s attr \<Rightarrow> nat list \<Rightarrow> (error + nat list list list) \<times> 's attr" where
  "bonds_of self [] = (Inr [], self)"
| "bonds_of self (a # as) =
     (case Bonds_bondDict self of
        (Inl e, self') \<Rightarrow> (Inl e, self')
      | (Inr bd, self') \<Rightarrow>
          (case dd_get bd a of
             (l, bd') \<Rightarrow>
               (case bonds_of (self'\<lparr>cache := Some bd'\<rparr>) as of
                  (Inl e, self'') \<Rightarrow> (Inl e, self'')
                | (Inr ls, self'') \<Rightarrow> (Inr (l # ls), self''))))"

fun singular :: "cls \<Rightarrow> string" where
  "singular TopologyAttr = ''topologyattr''"
| "singular AtomAttr = ''atomattr''"
| "singular Atomids = ''id''"
| "singular Atomnames = ''name''"
| "singular Atomtypes = ''type''"
| "singular Masses = ''mass''"
| "singular Charges = ''charge''"
| "singular ResidueAttr = ''residueattr''"
| "singular Resids = ''resid''"
| "singular Resnames = ''resname''"
| "singular SegmentAttr = ''segmentattr''"
| "singular Segids = ''segid''"
| "singular Bonds = ''bonds''"
| "singular Angles = ''angles''"
| "singular Dihedrals = ''dihedrals''"
| "singular Impropers = ''impropers''"

text \<open>
  \<^verbatim>\<open>sorted(set(itertools.chain(*...)))\<close>: tuples compare lexicographically;
  \<^verbatim>\<open>self.singular[:-1]\<close> drops the last character.
\<close>

definition Bonds_get_atoms :: "'s attr \<Rightarrow> group \<Rightarrow> 's outcome" where
  "Bonds_get_atoms self ag =
     (case bonds_of self (ix ag) of
        (Inl e, self') \<Rightarrow> (Inl e, self')
      | (Inr ls, self') \<Rightarrow>
          (Inr (TopologyGroup (sort (remdups (concat ls))) (univ ag)
                  (butlast (singular (cls self)))), self'))"

subsection \<open>Inheritance and method lookup\<close>

text \<open>The base named in each \<^verbatim>\<open>class\<close> statement (\<open>None\<close> for \<^verbatim>\<open>object\<close>).\<close>

fun base :: "cls \<Rightarrow> cls option" where
  "base TopologyAttr = None"
| "base AtomAttr = Some TopologyAttr"
| "base Atomids = Some AtomAttr"
| "base Atomnames = Some AtomAttr"
| "base Atomtypes = Some AtomAttr"
| "base Masses = Some AtomAttr"
| "base Charges = Some AtomAttr"
| "base ResidueAttr = Some TopologyAttr"
| "base Resids = Some ResidueAttr"
| "base Resnames = Some ResidueAttr"
| "base SegmentAttr = Some TopologyAttr"
| "base Segids = Some SegmentAttr"
| "base Bonds = Some AtomAttr"
| "base Angles = Some Bonds"
| "base Dihedrals = Some Bonds"
| "base Impropers = Some Bonds"

fun depth :: "cls \<Rightarrow> nat" where
  "depth TopologyAttr = 0"
| "depth AtomAttr = 1"
| "depth ResidueAttr = 1"
| "depth SegmentAttr = 1"
| "depth Angles = 3"
| "depth Dihedrals = 3"
| "depth Impropers = 3"
| "depth c = 2"

text \<open>The method resolution order: the class, then the order of its base.\<close>

function mro :: "cls \<Rightarrow> cls list" where
  "mro c = c # (case base c of None \<Rightarrow> [] | Some b \<Rightarrow> mro b)"
  by pat_completeness auto
termination
proof (relation "measure depth")
  show "wf (measure depth)" by simp
next
  fix c b
  assume "base c = Some b"
  then show "(b, c) \<in> measure depth" by (cases c) auto
qed

datatype lvl = Atoms | Residues | Segments

type_synonym 's getter = "'s attr \<Rightarrow> group \<Rightarrow> 's outcome"
type_synonym 's setter = "'s attr \<Rightarrow> group \<Rightarrow> val list \<Rightarrow> 's outcome"

text \<open>
  The \<^verbatim>\<open>def get_...\<close> and \<^verbatim>\<open>def set_...\<close> statements in the body of each class
  (\<open>None\<close>: the class body has no such \<^verbatim>\<open>def\<close>).
\<close>

fun own_get :: "'s externals \<Rightarrow> cls \<Rightarrow> lvl \<Rightarrow> 's getter option" where
  "own_get E TopologyAttr Atoms = Some TopologyAttr_get_atoms"
| "own_get E TopologyAttr Residues = Some TopologyAttr_get_residues"
| "own_get E TopologyAttr Segments = Some TopologyAttr_get_segments"
| "own_get E AtomAttr Atoms = Some AtomAttr_get_atoms"
| "own_get E AtomAttr Residues = Some (AtomAttr_get_residues E)"
| "own_get E AtomAttr Segments = Some (AtomAttr_get_segments E)"
| "own_get E Masses Residues = Some (Masses_get_residues E)"
| "own_get E Masses Segments = Some (Masses_get_segments E)"
| "own_get E Charges Residues = Some (Charges_get_residues E)"
| "own_get E Charges Segments = Some (Charges_get_segments E)"
| "own_get E ResidueAttr Atoms = Some (ResidueAttr_get_atoms E)"
| "own_get E ResidueAttr Residues = Some ResidueAttr_get_residues"
| "own_get E ResidueAttr Segments = Some (ResidueAttr_get_segments E)"
| "own_get E SegmentAttr Atoms = Some (SegmentAttr_get_atoms E)"
| "own_get E SegmentAttr Residues = Some (SegmentAttr_get_residues E)"
| "own_get E SegmentAttr Segments = Some SegmentAttr_get_segments"
| "own_get E Bonds Atoms = Some Bonds_get_atoms"
| "own_get E c l = None"

fun own_set :: "'s externals \<Rightarrow> cls \<Rightarrow> lvl \<Rightarrow> 's setter option" where
  "own_set E TopologyAttr Atoms = Some TopologyAttr_set_atoms"
| "own_set E TopologyAttr Residues = Some TopologyAttr_set_residues"
| "own_set E TopologyAttr Segments = Some TopologyAttr_set_segments"
| "own_set E AtomAttr Atoms = Some AtomAttr_set_atoms"
| "own_set E ResidueAttr Residues = Some ResidueAttr_set_residues"
| "own_set E Resids Atoms = Some (Resids_set_atoms E)"
| "own_set E SegmentAttr Segments = Some SegmentAttr_set_segments"
| "own_set E c l = None"

fun own_len :: "cls \<Rightarrow> ('s attr \<Rightarrow> (error + nat) \<times> 's attr) option" where
  "own_len TopologyAttr = Some TopologyAttr_len"
| "own_len Bonds = Some Bonds_len"
| "own_len c = None"

text \<open>Attribute lookup: the first class of the order whose body defines the name.\<close>

fun first_def :: "(cls \<Rightarrow> 'a option) \<Rightarrow> cls list \<Rightarrow> 'a option" where
  "first_def table [] = None"
| "first_def table (k # ks) =
     (case table k of Some h \<Rightarrow> Some h | None \<Rightarrow> first_def table ks)"

definition get_level :: "'s externals \<Rightarrow> lvl \<Rightarrow> 's attr \<Rightarrow> group \<Rightarrow> 's outcome" where
  "get_level E l self g =
     (case first_def (\<lambda>k. own_get E k l) (mro (cls self)) of
        Some h \<Rightarrow> h self g
      | None \<Rightarrow> (Inl AttributeError, self))"

definition set_level :: "'s externals \<Rightarrow> lvl \<Rightarrow> 's attr \<Rightarrow> group \<Rightarrow> val list \<Rightarrow> 's outcome" where
  "set_level E l self g values =
     (case first_def (\<lambda>k. own_set E k l) (mro (cls self)) of
        Some h \<Rightarrow> h self g values
      | None \<Rightarrow> (Inl AttributeError, self))"

definition get_atoms :: "'s externals \<Rightarrow> 's attr \<Rightarrow> group \<Rightarrow> 's outcome" where
  "get_atoms E = get_level E Atoms"

definition get_residues :: "'s externals \<Rightarrow> 's attr \<Rightarrow> group \<Rightarrow> 's outcome" where
  "get_residues E = get_level E Residues"

definition get_segments :: "'s externals \<Rightarrow> 's attr \<Rightarrow> group \<Rightarrow> 's outcome" where
  "get_segments E = get_level E Segments"

definition set_atoms :: "'s externals \<Rightarrow> 's attr \<Rightarrow> group \<Rightarrow> val list \<Rightarrow> 's outcome" where
  "set_atoms E = set_level E Atoms"

definition set_residues :: "'s externals \<Rightarrow> 's attr \<Rightarrow> group \<Rightarrow> val list \<Rightarrow> 's outcome" where
  "set_residues E = set_level E Residues"

definition set_segments :: "'s externals \<Rightarrow> 's attr \<Rightarrow> group \<Rightarrow> val list \<Rightarrow> 's outcome" where
  "set_segments E = set_level E Segments"

definition len :: "'s attr \<Rightarrow> (error + nat) \<times> 's attr" where
  "len self =
     (case first_def own_len (mro (cls self)) of
        Some h \<Rightarrow> h self
      | None \<Rightarrow> (Inl AttributeError, self))"

text \<open>\<^verbatim>\<open>__getitem__\<close> and \<^verbatim>\<open>__setitem__\<close>: a function that ends without \<^verbatim>\<open>return\<close> gives \<^verbatim>\<open>None\<close>.\<close>

definition getitem :: "'s externals \<Rightarrow> 's attr \<Rightarrow> group \<Rightarrow> 's outcome" where
  "getitem E self g =
     (if level g = ''atom'' then get_atoms E self g
      else if level g = ''residue'' then get_residues E self g
      else if level g = ''segment'' then get_segments E self g
      else (Inr PyNone, self))"

definition setitem :: "'s externals \<Rightarrow> 's attr \<Rightarrow> group \<Rightarrow> val list \<Rightarrow> 's outcome" where
  "setitem E self g values =
     (if level g = ''atom'' then set_atoms E self g values
      else if level g = ''residue'' then set_residues E self g values
      else if level g = ''segment'' then set_segments E self g values
      else (Inr PyNone, self))"

subsection \<open>A translation table\<close>

text \<open>
  Modelled from the spec: the Translation Table, which is not in this module. Its state
  is the atom-to-residue mapping \<open>AR\<close> (one residue index per atom) and the
  residue-to-segment mapping \<open>RS\<close>. The conversions follow the spec's contracts: many-to-one
  conversions keep the order and length of their input; the grouped conversions give one
  row of member atoms per input residue or segment; the flat ones are the rows joined;
  \<^verbatim>\<open>move_atom\<close> reassigns the atoms' residues, all or nothing, and never creates a
  residue.
\<close>

record transtable =
  AR :: "nat list"
  RS :: "nat list"

definition atoms_of_residue :: "transtable \<Rightarrow> nat \<Rightarrow> nat list" where
  "atoms_of_residue t r = filter (\<lambda>a. AR t ! a = r) [0..<length (AR t)]"

definition atoms_of_segment :: "transtable \<Rightarrow> nat \<Rightarrow> nat list" where
  "atoms_of_segment t s =
     filter (\<lambda>a. AR t ! a < length (RS t) \<and> RS t ! (AR t ! a) = s) [0..<length (AR t)]"

definition residues_of_segment :: "transtable \<Rightarrow> nat \<Rightarrow> nat list" where
  "residues_of_segment t s = filter (\<lambda>r. RS t ! r = s) [0..<length (RS t)]"

definition tt_move_atom :: "transtable \<Rightarrow> nat list \<Rightarrow> int list \<Rightarrow> error + transtable" where
  "tt_move_atom t aix rix =
     (if \<not> list_all (\<lambda>r. 0 \<le> r \<and> r < int (length (RS t))) rix then Inl IndexError
      else bind_err (fancy_set Inr (AR t) aix (map nat rix)) (\<lambda>ar. Inr (t\<lparr>AR := ar\<rparr>)))"

definition spec_tt :: "transtable externals" where
  "spec_tt =
     \<lparr>a2r = (\<lambda>t aix. fancy_get (AR t) aix),
      a2s = (\<lambda>t aix. bind_err (fancy_get (AR t) aix) (fancy_get (RS t))),
      r2a_1d = (\<lambda>t rix. Inr (concat (map (atoms_of_residue t) rix))),
      r2a_2d = (\<lambda>t rix. Inr (map (atoms_of_residue t) rix)),
      r2s = (\<lambda>t rix. fancy_get (RS t) rix),
      s2a_1d = (\<lambda>t six. Inr (concat (map (atoms_of_segment t) six))),
      s2a_2d = (\<lambda>t six. Inr (map (atoms_of_segment t) six)),
      s2r_1d = (\<lambda>t six. Inr (concat (map (residues_of_segment t) six))),
      move_atom = tt_move_atom,
      uninit = (\<lambda>i. 0)\<rparr>"

subsection \<open>Objects used in the examples\<close>

definition bonds3 :: "transtable attr" where
  "bonds3 = (init Bonds [Tup [0, 1], Tup [1, 2], Tup [0, 2]])\<lparr>topo := Some \<lparr>AR = [0, 0, 1], RS = [0, 0]\<rparr>\<rparr>"

definition bonds3_list :: "transtable attr" where
  "bonds3_list = (init_list Bonds [Tup [0, 1], Tup [1, 2], Tup [0, 2]])
                   \<lparr>topo := Some \<lparr>AR = [0, 0, 1], RS = [0, 0]\<rparr>\<rparr>"

definition names4 :: "transtable attr" where
  "names4 = (init Atomnames [Str ''N'', Str ''CA'', Str ''C'', Str ''OW''])
              \<lparr>topo := Some \<lparr>AR = [0, 0, 0, 1], RS = [0, 0]\<rparr>\<rparr>"

text \<open>
  The cast of an array of strings of item width \<open>w\<close> (dtype \<^verbatim>\<open><Uw\<close>), for the strings
  written in the examples: a string keeps its first \<open>w\<close> characters. Numbers and tuples
  are not written to such an array here.
\<close>

fun unicode_cast :: "nat \<Rightarrow> val \<Rightarrow> error + val" where
  "unicode_cast w (Str s) = Inr (Str (take w s))"
| "unicode_cast w (Num x) = Inl TypeError"
| "unicode_cast w (Tup t) = Inl ValueError"

definition names4_U2 :: "transtable attr" where
  "names4_U2 = names4\<lparr>store := NdArray (unicode_cast 2)\<rparr>"

definition ids2 :: "transtable attr" where
  "ids2 = init Atomids [Num 1, Num 2]"

definition masses4 :: "transtable attr" where
  "masses4 = (init Masses [Num 1, Num 1, Num 16, Num 1])
               \<lparr>topo := Some \<lparr>AR = [0, 0, 0, 1], RS = [0, 0]\<rparr>\<rparr>"

definition resids3 :: "transtable attr" where
  "resids3 = (init Resids [Num 10, Num 20, Num 30])
               \<lparr>topo := Some \<lparr>AR = [0, 0, 0, 1], RS = [0, 0, 0]\<rparr>\<rparr>"

definition resids_tie :: "transtable attr" where
  "resids_tie = (init Resids [Num 10, Num 20, Num 20])
                  \<lparr>topo := Some \<lparr>AR = [0, 0, 0, 1], RS = [0, 0, 0]\<rparr>\<rparr>"

definition bonds2 :: "transtable attr" where
  "bonds2 = init Bonds [Tup [0, 1], Tup [1, 2]]"

definition bd2 :: bonddict where
  "bd2 = [(1, [[1, 0], [2, 1]]), (0, [[1, 0]]), (2, [[2, 1]])]"

subsection \<open>Words of the claims\<close>

text \<open>
  The lowest index at which \<open>item\<close> stands in \<open>xs\<close> (the length of \<open>xs\<close> when it
  stands nowhere): the residue that \<open>first match wins\<close> names.
\<close>

definition first_match :: "val list \<Rightarrow> val \<Rightarrow> nat" where
  "first_match xs item = length (takeWhile (\<lambda>x. x \<noteq> item) xs)"

text \<open>
  The list standing under the key \<open>a\<close> of an adjacency map: what \<^verbatim>\<open>bd.get(a, [])\<close>
  gives, without touching the map.
\<close>

definition entries :: "bonddict \<Rightarrow> nat \<Rightarrow> nat list list" where
  "entries bd a = (case map_of bd a of None \<Rightarrow> [] | Some l \<Rightarrow> l)"

text \<open>
  The orientation that the build gives to a non-empty tuple, and a tuple registered under
  each of its atoms: the two steps of the loop in \<^verbatim>\<open>_bondDict\<close>, named for the proofs.
\<close>

definition flip_tuple :: "nat list \<Rightarrow> nat list" where
  "flip_tuple t = (if hd t < last t then rev t else t)"

definition add_tuple :: "nat list \<Rightarrow> bonddict \<Rightarrow> bonddict" where
  "add_tuple b bd = fold (\<lambda>a d. dd_append d a b) b bd"

section \<open>Properties\<close>

subsection \<open>Method lookup\<close>

declare mro.simps [simp del]

lemma mro_unfold:
  "mro TopologyAttr = [TopologyAttr]"
  "mro AtomAttr = [AtomAttr, TopologyAttr]"
  "mro Atomids = [Atomids, AtomAttr, TopologyAttr]"
  "mro Atomnames = [Atomnames, AtomAttr, TopologyAttr]"
  "mro Atomtypes = [Atomtypes, AtomAttr, TopologyAttr]"
  "mro Masses = [Masses, AtomAttr, TopologyAttr]"
  "mro Charges = [Charges, AtomAttr, TopologyAttr]"
  "mro ResidueAttr = [ResidueAttr, TopologyAttr]"
  "mro Resids = [Resids, ResidueAttr, TopologyAttr]"
  "mro Resnames = [Resnames, ResidueAttr, TopologyAttr]"
  "mro SegmentAttr = [SegmentAttr, TopologyAttr]"
  "mro Segids = [Segids, SegmentAttr, TopologyAttr]"
  "mro Bonds = [Bonds, AtomAttr, TopologyAttr]"
  "mro Angles = [Angles, Bonds, AtomAttr, TopologyAttr]"
  "mro Dihedrals = [Dihedrals, Bonds, AtomAttr, TopologyAttr]"
  "mro Impropers = [Impropers, Bonds, AtomAttr, TopologyAttr]"
  by (simp_all add: mro.simps)

lemma spec_tt_sel [simp]:
  "a2r spec_tt = (\<lambda>t aix. fancy_get (AR t) aix)"
  "a2s spec_tt = (\<lambda>t aix. bind_err (fancy_get (AR t) aix) (fancy_get (RS t)))"
  "r2a_1d spec_tt = (\<lambda>t rix. Inr (concat (map (atoms_of_residue t) rix)))"
  "r2a_2d spec_tt = (\<lambda>t rix. Inr (map (atoms_of_residue t) rix))"
  "r2s spec_tt = (\<lambda>t rix. fancy_get (RS t) rix)"
  "s2a_1d spec_tt = (\<lambda>t six. Inr (concat (map (atoms_of_segment t) six)))"
  "s2a_2d spec_tt = (\<lambda>t six. Inr (map (atoms_of_segment t) six))"
  "s2r_1d spec_tt = (\<lambda>t six. Inr (concat (map (residues_of_segment t) six)))"
  "move_atom spec_tt = tt_move_atom"
  "uninit spec_tt = (\<lambda>i. 0)"
  by (simp_all add: spec_tt_def)

lemma upt_3: "[0..<3] = [0, 1, 2]"
  by (simp add: upt_rec)

lemma upt_4: "[0..<4] = [0, 1, 2, 3]"
  by (simp add: upt_rec)

text \<open>Flattening reads: every class below AtomAttr but Masses and Charges.\<close>

lemma flatten_lookup:
  assumes "AtomAttr \<in> set (mro (cls self))" and "cls self \<noteq> Masses" and "cls self \<noteq> Charges"
  shows "get_residues E self g = AtomAttr_get_residues E self g"
    and "get_segments E self g = AtomAttr_get_segments E self g"
  using assms
  by (cases "cls self"; simp add: get_residues_def get_segments_def get_level_def mro_unfold)+

lemma AtomAttr_get_residues_eq:
  "AtomAttr_get_residues E self g =
     ((case topo self of
         None \<Rightarrow> Inl AttributeError
       | Some s \<Rightarrow>
           (case r2a_1d E s (ix g) of
              Inl e \<Rightarrow> Inl e
            | Inr aix \<Rightarrow>
                (case store self of
                   PyList \<Rightarrow> Inl TypeError
                 | NdArray c \<Rightarrow>
                     if list_all (\<lambda>a. a < length (vals self)) aix
                     then Inr (Array (map (\<lambda>a. vals self ! a) aix)) else Inl IndexError))), self)"
  by (simp add: AtomAttr_get_residues_def tt_call_def bind_err_def subscript_def fancy_get_def
      split: option.splits sum.splits storage.splits)

lemma AtomAttr_get_segments_eq:
  "AtomAttr_get_segments E self g =
     ((case topo self of
         None \<Rightarrow> Inl AttributeError
       | Some s \<Rightarrow>
           (case s2a_1d E s (ix g) of
              Inl e \<Rightarrow> Inl e
            | Inr aix \<Rightarrow>
                (case store self of
                   PyList \<Rightarrow> Inl TypeError
                 | NdArray c \<Rightarrow>
                     if list_all (\<lambda>a. a < length (vals self)) aix
                     then Inr (Array (map (\<lambda>a. vals self ! a) aix)) else Inl IndexError))), self)"
  by (simp add: AtomAttr_get_segments_def tt_call_def bind_err_def subscript_def fancy_get_def
      split: option.splits sum.splits storage.splits)

subsection \<open>Connectivity attributes read at residue and segment level\<close>

text \<open>
  \<^verbatim>\<open>Bonds\<close> derives from \<^verbatim>\<open>AtomAttr\<close> and overrides \<^verbatim>\<open>get_atoms\<close> only, so for
  Bonds, Angles, Dihedrals and Impropers the reads at residue and segment level run the
  bodies of \<^verbatim>\<open>AtomAttr\<close>, which subscript the stored tuples by atom indices.
\<close>

lemma connectivity_reads_inherited:
  assumes "cls self \<in> {Bonds, Angles, Dihedrals, Impropers}"
  shows "get_residues E self g = AtomAttr_get_residues E self g"
    and "get_segments E self g = AtomAttr_get_segments E self g"
proof -
  from assms have a: "AtomAttr \<in> set (mro (cls self))"
    and m: "cls self \<noteq> Masses" and c: "cls self \<noteq> Charges"
    by (auto simp: mro_unfold)
  show "get_residues E self g = AtomAttr_get_residues E self g"
    by (rule flatten_lookup [OF a m c])
  show "get_segments E self g = AtomAttr_get_segments E self g"
    by (rule flatten_lookup [OF a m c])
qed

text \<open>
  Claim C1 does not hold of the code: a connectivity attribute read at residue or segment
  level does not raise NoDataError. On the list of tuples that \<^verbatim>\<open>Bonds.__init__\<close>
  documents, attached to a topology, both reads raise TypeError, for each of the four
  classes; on an array of tuples they return the tuples standing at the member-atom
  indices (bonds 0 and 1 for the atoms 0 and 1 of residue 0); on an attribute with no
  topology attached they raise AttributeError.
\<close>

theorem C1_connectivity_reads_not_NoData:
  "get_residues spec_tt bonds3_list \<lparr>level = ''residue'', ix = [0], univ = 0\<rparr>
     = (Inl TypeError, bonds3_list)
   \<and> get_segments spec_tt bonds3_list \<lparr>level = ''segment'', ix = [0], univ = 0\<rparr>
     = (Inl TypeError, bonds3_list)
   \<and> get_residues spec_tt (bonds3_list\<lparr>cls := Angles\<rparr>) \<lparr>level = ''residue'', ix = [0], univ = 0\<rparr>
     = (Inl TypeError, bonds3_list\<lparr>cls := Angles\<rparr>)
   \<and> get_residues spec_tt (bonds3_list\<lparr>cls := Dihedrals\<rparr>) \<lparr>level = ''residue'', ix = [0], univ = 0\<rparr>
     = (Inl TypeError, bonds3_list\<lparr>cls := Dihedrals\<rparr>)
   \<and> get_residues spec_tt (bonds3_list\<lparr>cls := Impropers\<rparr>) \<lparr>level = ''residue'', ix = [0], univ = 0\<rparr>
     = (Inl TypeError, bonds3_list\<lparr>cls := Impropers\<rparr>)
   \<and> get_residues spec_tt bonds3 \<lparr>level = ''residue'', ix = [0], univ = 0\<rparr>
     = (Inr (Array [Tup [0, 1], Tup [1, 2]]), bonds3)
   \<and> get_segments spec_tt bonds3 \<lparr>level = ''segment'', ix = [0], univ = 0\<rparr>
     = (Inr (Array [Tup [0, 1], Tup [1, 2], Tup [0, 2]]), bonds3)
   \<and> get_residues spec_tt (init_list Bonds [Tup [0, 1]]) \<lparr>level = ''residue'', ix = [0], univ = 0\<rparr>
     = (Inl AttributeError, init_list Bonds [Tup [0, 1]])
   \<and> getitem spec_tt bonds3_list \<lparr>level = ''residue'', ix = [0], univ = 0\<rparr>
     = (Inl TypeError, bonds3_list)"
  by (simp add: getitem_def get_residues_def get_segments_def get_level_def mro_unfold
      AtomAttr_get_residues_eq AtomAttr_get_segments_eq bonds3_def bonds3_list_def
      init_def init_list_def atoms_of_residue_def atoms_of_segment_def upt_3)

subsection \<open>Defaults of the base class\<close>

lemma get_defaults:
  assumes "\<forall>k\<in>set (mro (cls self)). k \<noteq> TopologyAttr \<longrightarrow> own_get E k l = None"
  shows "get_level E l self g = (Inl NoDataError, self)"
  using assms
  by (cases "cls self"; cases l)
     (simp_all add: get_level_def mro_unfold TopologyAttr_get_atoms_def
        TopologyAttr_get_residues_def TopologyAttr_get_segments_def)

lemma set_defaults:
  assumes "\<forall>k\<in>set (mro (cls self)). k \<noteq> TopologyAttr \<longrightarrow> own_set E k l = None"
  shows "set_level E l self g v = (Inl NotImplementedError, self)"
  using assms
  by (cases "cls self"; cases l)
     (simp_all add: set_level_def mro_unfold TopologyAttr_set_atoms_def
        TopologyAttr_set_residues_def TopologyAttr_set_segments_def)

text \<open>
  Claim C8. Whenever no class between the attribute's class and \<^verbatim>\<open>TopologyAttr\<close>
  defines the handler of a level, the read of that level raises NoDataError and the
  write of that level raises NotImplementedError, with the object unchanged; the two
  exceptions are different. (\<open>get_level E Atoms\<close> is \<open>get_atoms E\<close>, and so on.)
\<close>

theorem C8_unoverridden_defaults:
  "((\<forall>k\<in>set (mro (cls self)). k \<noteq> TopologyAttr \<longrightarrow> own_get E k l = None)
      \<longrightarrow> get_level E l self g = (Inl NoDataError, self))
   \<and> ((\<forall>k\<in>set (mro (cls self)). k \<noteq> TopologyAttr \<longrightarrow> own_set E k l = None)
      \<longrightarrow> set_level E l self g v = (Inl NotImplementedError, self))
   \<and> NoDataError \<noteq> NotImplementedError"
  using get_defaults set_defaults by blast

theorem C8_unoverridden_defaults_witness:
  "get_atoms spec_tt (init TopologyAttr [Num 1]) \<lparr>level = ''atom'', ix = [0], univ = 0\<rparr>
     = (Inl NoDataError, init TopologyAttr [Num 1])
   \<and> set_atoms spec_tt (init Resnames [Str ''ALA'']) \<lparr>level = ''atom'', ix = [0], univ = 0\<rparr> [Str ''GLY'']
     = (Inl NotImplementedError, init Resnames [Str ''ALA''])
   \<and> set_residues spec_tt (init Masses [Num 1]) \<lparr>level = ''residue'', ix = [0], univ = 0\<rparr> [Num 2]
     = (Inl NotImplementedError, init Masses [Num 1])"
proof -
  have g: "\<forall>k\<in>set (mro (cls (init TopologyAttr [Num 1] :: transtable attr))).
             k \<noteq> TopologyAttr \<longrightarrow> own_get spec_tt k Atoms = None"
    by (simp add: init_def mro_unfold)
  have s1: "\<forall>k\<in>set (mro (cls (init Resnames [Str ''ALA''] :: transtable attr))).
             k \<noteq> TopologyAttr \<longrightarrow> own_set spec_tt k Atoms = None"
    by (simp add: init_def mro_unfold)
  have s2: "\<forall>k\<in>set (mro (cls (init Masses [Num 1] :: transtable attr))).
             k \<noteq> TopologyAttr \<longrightarrow> own_set spec_tt k Residues = None"
    by (simp add: init_def mro_unfold)
  from g s1 s2 show ?thesis
    using C8_unoverridden_defaults [of "init TopologyAttr [Num 1]" spec_tt Atoms]
      C8_unoverridden_defaults [of "init Resnames [Str ''ALA'']" spec_tt Atoms]
      C8_unoverridden_defaults [of "init Masses [Num 1]" spec_tt Residues]
    by (simp add: get_atoms_def set_atoms_def set_residues_def)
qed

subsection \<open>Groups of an unknown level\<close>

text \<open>
  Claim C10. For a group whose level tag is none of \<^verbatim>\<open>'atom'\<close>, \<^verbatim>\<open>'residue'\<close>,
  \<^verbatim>\<open>'segment'\<close>, both \<^verbatim>\<open>__getitem__\<close> and \<^verbatim>\<open>__setitem__\<close> return \<^verbatim>\<open>None\<close>,
  raise nothing, and leave the attribute as it was.
\<close>

theorem C10_unknown_level_falls_through:
  assumes "level g \<noteq> ''atom''" and "level g \<noteq> ''residue''" and "level g \<noteq> ''segment''"
  shows "getitem E self g = (Inr PyNone, self) \<and> setitem E self g v = (Inr PyNone, self)"
  using assms by (simp add: getitem_def setitem_def)

theorem C10_unknown_level_falls_through_witness:
  "getitem spec_tt (init Masses [Num 1]) \<lparr>level = ''molecule'', ix = [0], univ = 0\<rparr>
     = (Inr PyNone, init Masses [Num 1])
   \<and> setitem spec_tt (init Masses [Num 1]) \<lparr>level = ''molecule'', ix = [0], univ = 0\<rparr> [Num 2]
     = (Inr PyNone, init Masses [Num 1])"
  using C10_unknown_level_falls_through
    [of "\<lparr>level = ''molecule'', ix = [0], univ = 0\<rparr>" spec_tt "init Masses [Num 1]" "[Num 2]"]
  by simp

subsection \<open>Segment reads of atom attributes that do not aggregate\<close>

text \<open>
  Claim C9. For an attribute of a class below \<^verbatim>\<open>AtomAttr\<close> other than Masses and
  Charges, with an array as values (the docstrings: \<^verbatim>\<open>atomnames : array\<close>), attached to
  a topology whose translation table gives the rows \<open>rows\<close> of
  member atoms (one row per segment of the group) and their concatenation as the flat
  conversion, the segment read returns one value per member atom: the values at the
  concatenated rows, so its length is the total number of member atoms.
\<close>

theorem C9_flattened_segment_read:
  assumes "AtomAttr \<in> set (mro (cls self))" and "cls self \<noteq> Masses" and "cls self \<noteq> Charges"
    and "topo self = Some s"
    and "s2a_2d E s (ix sg) = Inr rows"
    and "s2a_1d E s (ix sg) = Inr (concat rows)"
    and "list_all (\<lambda>a. a < length (vals self)) (concat rows)"
    and "store self = NdArray c"
  shows "\<exists>out. get_segments E self sg = (Inr (Array out), self)
           \<and> out = map (\<lambda>a. vals self ! a) (concat rows)
           \<and> length out = sum_list (map length rows)"
  unfolding flatten_lookup [OF assms(1-3)] AtomAttr_get_segments_eq
  using assms(4-8) by (simp add: length_concat)

theorem C9_flattened_segment_read_witness:
  "get_segments spec_tt names4 \<lparr>level = ''segment'', ix = [0], univ = 0\<rparr>
     = (Inr (Array [Str ''N'', Str ''CA'', Str ''C'', Str ''OW'']), names4)
   \<and> length [Str ''N'', Str ''CA'', Str ''C'', Str ''OW''] = 4
   \<and> length (ix \<lparr>level = ''segment'', ix = [0], univ = 0\<rparr>) = 1"
proof -
  let ?t = "\<lparr>AR = [0, 0, 0, 1], RS = [0, 0]\<rparr>"
  let ?sg = "\<lparr>level = ''segment'', ix = [0], univ = 0\<rparr>"
  have a: "AtomAttr \<in> set (mro (cls names4))" and m: "cls names4 \<noteq> Masses"
    and c: "cls names4 \<noteq> Charges" and t: "topo names4 = Some ?t"
    by (simp_all add: names4_def init_def mro_unfold)
  have r2: "s2a_2d spec_tt ?t (ix ?sg) = Inr [[0, 1, 2, 3]]"
    by (simp add: atoms_of_segment_def upt_4)
  have r1: "s2a_1d spec_tt ?t (ix ?sg) = Inr (concat [[0, 1, 2, 3]])"
    by (simp add: atoms_of_segment_def upt_4)
  have v: "list_all (\<lambda>a. a < length (vals names4)) (concat [[0, 1, 2, 3]])"
    and k: "store names4 = NdArray Inr"
    by (simp_all add: names4_def init_def)
  show ?thesis
    using C9_flattened_segment_read [OF a m c t r2 r1 v k]
    by (simp add: names4_def init_def)
qed

subsection \<open>Writing and reading back at atom level\<close>

lemma fold_update_length:
  "length (fold (\<lambda>(j, x) ys. ys[j := x]) ps xs) = length xs"
  by (induction ps arbitrary: xs) (auto split: prod.splits)

lemma fold_update_other:
  "j \<notin> fst ` set ps \<Longrightarrow> fold (\<lambda>(j, x) ys. ys[j := x]) ps xs ! j = xs ! j"
  by (induction ps arbitrary: xs) (auto split: prod.splits)

lemma fold_update_read:
  "distinct js \<Longrightarrow> length v = length js \<Longrightarrow> list_all (\<lambda>j. j < length xs) js \<Longrightarrow>
     map (\<lambda>j. fold (\<lambda>(j, x) ys. ys[j := x]) (zip js v) xs ! j) js = v"
proof (induction js arbitrary: v xs)
  case Nil
  then show ?case by simp
next
  case (Cons j js)
  then obtain x v' where v: "v = x # v'" by (cases v) auto
  have notin: "j \<notin> fst ` set (zip js v')"
    using Cons.prems(1) by (auto dest: set_zip_leftD)
  have "fold (\<lambda>(j, x) ys. ys[j := x]) (zip js v') (xs[j := x]) ! j = xs[j := x] ! j"
    by (rule fold_update_other [OF notin])
  moreover have "xs[j := x] ! j = x"
    using Cons.prems(3) by simp
  moreover have "map (\<lambda>i. fold (\<lambda>(j, x) ys. ys[j := x]) (zip js v') (xs[j := x]) ! i) js = v'"
    using Cons.IH [of v' "xs[j := x]"] Cons.prems v by simp
  ultimately show ?case by (simp add: v)
qed

lemma cast_all_same: "list_all (\<lambda>x. c x = Inr x) v \<Longrightarrow> cast_all c v = Inr v"
  by (induction v) (simp_all add: bind_err_def)

lemma fancy_roundtrip:
  assumes "distinct js" and "length v = length js" and "list_all (\<lambda>j. j < length xs) js"
    and "list_all (\<lambda>x. c x = Inr x) v"
  shows "\<exists>ys. fancy_set c xs js v = Inr ys \<and> fancy_get ys js = Inr v"
  using assms(1-3) fold_update_read [OF assms(1-3)]
  by (simp add: fancy_set_def fancy_get_def fold_update_length cast_all_same [OF assms(4)]
      bind_err_def)

lemma atom_scalar_lookup:
  assumes "cls self \<in> {AtomAttr, Atomids, Atomnames, Atomtypes, Masses, Charges}"
  shows "set_atoms E self g v = AtomAttr_set_atoms self g v"
    and "get_atoms E self g = AtomAttr_get_atoms self g"
  using assms
  by (auto simp: set_atoms_def get_atoms_def set_level_def get_level_def mro_unfold)

text \<open>
  Claim C7, amended. For an atom-level scalar attribute whose values are an array, and
  an atom group whose indices are in range and pairwise distinct, writing one value per
  index, each of them a value that the dtype of the array stores unchanged, and then
  reading the same group returns the values written.
\<close>

theorem C7_atom_write_read_roundtrip:
  assumes "cls self \<in> {AtomAttr, Atomids, Atomnames, Atomtypes, Masses, Charges}"
    and "store self = NdArray c"
    and "level g = ''atom''"
    and "list_all (\<lambda>j. j < length (vals self)) (ix g)"
    and "distinct (ix g)"
    and "length v = length (ix g)"
    and "list_all (\<lambda>x. c x = Inr x) v"
  shows "\<exists>self'. setitem E self g v = (Inr PyNone, self')
           \<and> getitem E self' g = (Inr (Array v), self')"
proof -
  from fancy_roundtrip [OF assms(5) assms(6) assms(4) assms(7)]
  obtain ys where w: "fancy_set c (vals self) (ix g) v = Inr ys"
    and r: "fancy_get ys (ix g) = Inr v"
    by blast
  let ?self' = "self\<lparr>vals := ys\<rparr>"
  have c': "cls ?self' \<in> {AtomAttr, Atomids, Atomnames, Atomtypes, Masses, Charges}"
    using assms(1) by simp
  have "setitem E self g v = (Inr PyNone, ?self')"
    using assms(2,3) w
    by (simp add: setitem_def atom_scalar_lookup [OF assms(1)] AtomAttr_set_atoms_def assign_def)
  moreover have "getitem E ?self' g = (Inr (Array v), ?self')"
    using assms(2,3) r
    by (simp add: getitem_def atom_scalar_lookup [OF c'] AtomAttr_get_atoms_def subscript_def
        bind_err_def)
  ultimately show ?thesis by blast
qed

theorem C7_atom_write_read_roundtrip_witness:
  "setitem spec_tt ids2 \<lparr>level = ''atom'', ix = [1, 0], univ = 0\<rparr> [Num 7, Num 8]
     = (Inr PyNone, ids2\<lparr>vals := [Num 8, Num 7]\<rparr>)
   \<and> getitem spec_tt (ids2\<lparr>vals := [Num 8, Num 7]\<rparr>) \<lparr>level = ''atom'', ix = [1, 0], univ = 0\<rparr>
     = (Inr (Array [Num 7, Num 8]), ids2\<lparr>vals := [Num 8, Num 7]\<rparr>)"
proof -
  let ?g = "\<lparr>level = ''atom'', ix = [1, 0], univ = 0\<rparr>"
  have c: "cls ids2 \<in> {AtomAttr, Atomids, Atomnames, Atomtypes, Masses, Charges}"
    and k: "store ids2 = NdArray Inr"
    and l: "level ?g = ''atom''"
    and i: "list_all (\<lambda>j. j < length (vals ids2)) (ix ?g)"
    and d: "distinct (ix ?g)"
    and n: "length [Num 7, Num 8] = length (ix ?g)"
    and r: "list_all (\<lambda>x. (Inr x :: error + val) = Inr x) [Num 7, Num 8]"
    by (simp_all add: ids2_def init_def)
  have w: "setitem spec_tt ids2 ?g [Num 7, Num 8] = (Inr PyNone, ids2\<lparr>vals := [Num 8, Num 7]\<rparr>)"
    by (simp add: setitem_def set_atoms_def set_level_def mro_unfold AtomAttr_set_atoms_def
        assign_def fancy_set_def bind_err_def ids2_def init_def)
  show ?thesis
    using C7_atom_write_read_roundtrip [OF c k l i d n r, of spec_tt] w by auto
qed

text \<open>
  Claim C7 as stated (any group with valid indices, any value sequence) fails: with the
  index 0 given twice the read returns the last value written for both entries; a single
  value written to two indices is read back twice; and in an array of strings of width 2
  the names HG21 and OXT are stored, and read back, as HG and OX.
\<close>

theorem C7_atom_write_read_counterexample:
  "setitem spec_tt ids2 \<lparr>level = ''atom'', ix = [0, 0], univ = 0\<rparr> [Num 5, Num 6]
     = (Inr PyNone, ids2\<lparr>vals := [Num 6, Num 2]\<rparr>)
   \<and> getitem spec_tt (ids2\<lparr>vals := [Num 6, Num 2]\<rparr>) \<lparr>level = ''atom'', ix = [0, 0], univ = 0\<rparr>
     = (Inr (Array [Num 6, Num 6]), ids2\<lparr>vals := [Num 6, Num 2]\<rparr>)
   \<and> [Num 6, Num 6] \<noteq> [Num 5, Num 6]
   \<and> setitem spec_tt ids2 \<lparr>level = ''atom'', ix = [0, 1], univ = 0\<rparr> [Num 5]
     = (Inr PyNone, ids2\<lparr>vals := [Num 5, Num 5]\<rparr>)
   \<and> getitem spec_tt (ids2\<lparr>vals := [Num 5, Num 5]\<rparr>) \<lparr>level = ''atom'', ix = [0, 1], univ = 0\<rparr>
     = (Inr (Array [Num 5, Num 5]), ids2\<lparr>vals := [Num 5, Num 5]\<rparr>)
   \<and> [Num 5, Num 5] \<noteq> [Num 5]
   \<and> setitem spec_tt names4_U2 \<lparr>level = ''atom'', ix = [0, 1], univ = 0\<rparr> [Str ''HG21'', Str ''OXT'']
     = (Inr PyNone, names4_U2\<lparr>vals := [Str ''HG'', Str ''OX'', Str ''C'', Str ''OW'']\<rparr>)
   \<and> getitem spec_tt (names4_U2\<lparr>vals := [Str ''HG'', Str ''OX'', Str ''C'', Str ''OW'']\<rparr>)
         \<lparr>level = ''atom'', ix = [0, 1], univ = 0\<rparr>
     = (Inr (Array [Str ''HG'', Str ''OX'']),
        names4_U2\<lparr>vals := [Str ''HG'', Str ''OX'', Str ''C'', Str ''OW'']\<rparr>)
   \<and> [Str ''HG'', Str ''OX''] \<noteq> [Str ''HG21'', Str ''OXT'']"
  by (simp add: setitem_def getitem_def set_atoms_def get_atoms_def set_level_def get_level_def
      mro_unfold AtomAttr_set_atoms_def AtomAttr_get_atoms_def assign_def subscript_def
      fancy_set_def fancy_get_def bind_err_def ids2_def names4_U2_def names4_def init_def)

subsection \<open>Masses and charges of residues and segments\<close>

lemma subscript_Num:
  "store self = NdArray c \<Longrightarrow> vals self = map Num ms \<Longrightarrow> list_all (\<lambda>a. a < length ms) row \<Longrightarrow>
     subscript self row = Inr (map (\<lambda>a. Num (ms ! a)) row)"
  by (simp add: subscript_def fancy_get_def list_all_iff)

lemma np_sum_Num: "np_sum (map (\<lambda>a. Num (f a)) row) = Inr (sum_list (map f row))"
  by (simp add: np_sum_def list_all_iff comp_def)

lemma sum_rows_ok:
  assumes "store self = NdArray c" and "vals self = map Num ms"
  shows "list_all (list_all (\<lambda>a. a < length ms)) rows \<Longrightarrow> i + length rows \<le> length out \<Longrightarrow>
     sum_rows self out i rows =
       Inr (take i out @ map (\<lambda>row. sum_list (map (\<lambda>a. ms ! a) row)) rows
              @ drop (i + length rows) out)"
proof (induction rows arbitrary: out i)
  case Nil
  then show ?case by simp
next
  case (Cons row rows)
  let ?t = "sum_list (map (\<lambda>a. ms ! a) row)"
  from Cons.prems have row: "list_all (\<lambda>a. a < length ms) row"
    and rows: "list_all (list_all (\<lambda>a. a < length ms)) rows"
    and i: "i < length out" and n: "Suc i + length rows \<le> length (out[i := ?t])"
    by simp_all
  have "sum_rows self out i (row # rows) = sum_rows self (out[i := ?t]) (Suc i) rows"
    using i by (simp add: subscript_Num [OF assms row] np_sum_Num bind_err_def)
  also have "\<dots> = Inr (take (Suc i) (out[i := ?t]) @ map (\<lambda>row. sum_list (map (\<lambda>a. ms ! a) row)) rows
              @ drop (Suc i + length rows) (out[i := ?t]))"
    by (rule Cons.IH [OF rows n])
  also have "take (Suc i) (out[i := ?t]) = take i out @ [?t]"
    using i by (simp add: take_Suc_conv_app_nth)
  also have "drop (Suc i + length rows) (out[i := ?t]) = drop (Suc i + length rows) out"
    by simp
  finally show ?case by simp
qed

lemma sum_rows_all:
  assumes "store self = NdArray c" and "vals self = map Num ms"
    and "list_all (list_all (\<lambda>a. a < length ms)) rows" and "length rows = n"
  shows "sum_rows self (np_empty E n) 0 rows =
           Inr (map (\<lambda>i. sum_list (map (\<lambda>a. ms ! a) (rows ! i))) [0..<n])"
proof -
  have "map (\<lambda>row. sum_list (map (\<lambda>a. ms ! a) row)) rows =
          map (\<lambda>i. sum_list (map (\<lambda>a. ms ! a) (rows ! i))) [0..<n]"
    using assms(4) by (simp add: list_eq_iff_nth_eq)
  then show ?thesis
    using sum_rows_ok [OF assms(1,2,3), of 0 "np_empty E n"] assms(4)
    by (simp add: np_empty_def)
qed

lemma aggregate_lookup:
  assumes "cls self \<in> {Masses, Charges}"
  shows "get_residues E self g =
           (bind_err (tt_call self (\<lambda>s. r2a_2d E s (ix g))) (\<lambda>rows.
            bind_err (sum_rows self (np_empty E (length (ix g))) 0 rows) (\<lambda>out.
              Inr (Array (map Num out)))), self)"
    and "get_segments E self g =
           (bind_err (tt_call self (\<lambda>s. s2a_2d E s (ix g))) (\<lambda>rows.
            bind_err (sum_rows self (np_empty E (length (ix g))) 0 rows) (\<lambda>out.
              Inr (Array (map Num out)))), self)"
  using assms
  by (auto simp: get_residues_def get_segments_def get_level_def mro_unfold
      Masses_get_residues_def Masses_get_segments_def
      Charges_get_residues_def Charges_get_segments_def)

text \<open>
  Claim C3. For Masses and Charges attached to a topology, with an array of numbers as
  values (the docstrings: \<^verbatim>\<open>masses : array\<close>), when
  the translation table gives one row of in-range member atoms per residue of the group
  (per segment, for the segment read), the read returns one number per residue, in the
  order of the group's indices: entry \<open>i\<close> is the sum of the values at the atoms of
  row \<open>i\<close>, and there are as many entries as the group has indices. The object is not
  changed. The example of the claim (masses 1, 1, 16, 1, atoms 0 to 2 in residue 0 and
  atom 3 in residue 1, giving 18 and 1) follows the theorem.
\<close>

theorem C3_masses_charges_aggregate:
  assumes "cls self \<in> {Masses, Charges}"
    and "topo self = Some s"
    and "vals self = map Num ms"
    and "list_all (list_all (\<lambda>a. a < length ms)) rows"
    and "length rows = length (ix g)"
    and "store self = NdArray c"
  shows "(r2a_2d E s (ix g) = Inr rows \<longrightarrow>
            get_residues E self g =
              (Inr (Array (map (\<lambda>i. Num (sum_list (map (\<lambda>a. ms ! a) (rows ! i))))
                             [0..<length (ix g)])), self))
       \<and> (s2a_2d E s (ix g) = Inr rows \<longrightarrow>
            get_segments E self g =
              (Inr (Array (map (\<lambda>i. Num (sum_list (map (\<lambda>a. ms ! a) (rows ! i))))
                             [0..<length (ix g)])), self))"
  unfolding aggregate_lookup [OF assms(1)]
  using assms(2) sum_rows_all [OF assms(6,3,4,5), of E]
  by (simp add: tt_call_def bind_err_def comp_def)

theorem C3_masses_charges_aggregate_witness:
  "get_residues spec_tt masses4 \<lparr>level = ''residue'', ix = [0, 1], univ = 0\<rparr>
     = (Inr (Array [Num 18, Num 1]), masses4)"
proof -
  let ?t = "\<lparr>AR = [0, 0, 0, 1], RS = [0, 0]\<rparr>"
  let ?g = "\<lparr>level = ''residue'', ix = [0, 1], univ = 0\<rparr>"
  have c: "cls masses4 \<in> {Masses, Charges}" and t: "topo masses4 = Some ?t"
    and v: "vals masses4 = map Num [1, 1, 16, 1]" and k: "store masses4 = NdArray Inr"
    by (simp_all add: masses4_def init_def)
  have r: "list_all (list_all (\<lambda>a. a < length [1, 1, 16, 1 :: real])) [[0, 1, 2], [3]]"
    and n: "length [[0, 1, 2], [3 :: nat]] = length (ix ?g)"
    by simp_all
  have tt: "r2a_2d spec_tt ?t (ix ?g) = Inr [[0, 1, 2], [3]]"
    by (simp add: atoms_of_residue_def upt_4)
  have u: "[0..<2] = [0, 1]"
    by (simp add: upt_rec)
  show ?thesis
    using C3_masses_charges_aggregate [OF c t v r n k, of spec_tt] tt
    by (simp add: u)
qed

subsection \<open>Moving atoms to the residues of given resids\<close>

lemma to_int32_small:
  assumes "k < 2 ^ 31"
  shows "to_int32 k = int k"
proof -
  have "(word_of_nat k :: 32 word) = word_of_int (int k)"
    by simp
  then have "to_int32 k = signed_take_bit (LENGTH(32) - 1) (int k)"
    unfolding to_int32_def by (simp only: sint_sbintrunc')
  also have "\<dots> = int k"
    using assms by (intro signed_take_bit_int_eq_self) auto
  finally show ?thesis .
qed

lemma first_match_props:
  assumes "item \<in> set xs"
  shows "first_match xs item < length xs"
    and "xs ! first_match xs item = item"
    and "\<forall>j<first_match xs item. xs ! j \<noteq> item"
proof -
  show l: "first_match xs item < length xs"
    using assms unfolding first_match_def
    by (induction xs) auto
  show "xs ! first_match xs item = item"
    using nth_length_takeWhile [of "\<lambda>x. x \<noteq> item" xs] l
    by (simp add: first_match_def)
  show "\<forall>j<first_match xs item. xs ! j \<noteq> item"
    unfolding first_match_def
    by (metis (mono_tags, lifting) nth_mem set_takeWhileD takeWhile_nth)
qed

lemma filter_upt_head:
  assumes "filter P [0..<n] = k # ks"
  shows "k < n \<and> P k \<and> (\<forall>j<k. \<not> P j)"
proof -
  have "k \<in> set (filter P [0..<n])"
    by (simp add: assms)
  then have kn: "k < n" and pk: "P k"
    by simp_all
  have "sorted (filter P [0..<n])"
    by (simp add: sorted_wrt_filter)
  then have le: "\<forall>y\<in>set ks. k \<le> y"
    by (simp add: assms)
  have "\<not> P j" if "j < k" for j
  proof
    assume "P j"
    with that kn have "j \<in> set (filter P [0..<n])"
      by simp
    with assms le that show False
      by auto
  qed
  with kn pk show ?thesis by blast
qed

lemma first_index_eq:
  "(case filter (\<lambda>k. xs ! k = item) [0..<length xs] of
      [] \<Rightarrow> Inl IndexError
    | k # ks \<Rightarrow> Inr k) =
     (if item \<in> set xs then Inr (first_match xs item) else Inl IndexError)"
proof (cases "filter (\<lambda>k. xs ! k = item) [0..<length xs]")
  case Nil
  then have "\<forall>k<length xs. xs ! k \<noteq> item"
    by (auto simp: filter_empty_conv)
  then have "item \<notin> set xs"
    by (auto simp: in_set_conv_nth)
  with Nil show ?thesis
    by simp
next
  case (Cons k ks)
  from filter_upt_head [OF Cons]
  have k: "k < length xs" "xs ! k = item" "\<forall>j<k. xs ! j \<noteq> item"
    by auto
  then have mem: "item \<in> set xs"
    by (auto simp: in_set_conv_nth)
  have "k = first_match xs item"
    using k first_match_props [OF mem]
    by (metis linorder_neqE_nat)
  with Cons mem show ?thesis
    by simp
qed

lemma where_first_eq:
  "store self = NdArray c \<Longrightarrow>
     where_first self item =
       (if item \<in> set (vals self) then Inr (first_match (vals self) item) else Inl IndexError)"
  by (simp add: where_first_def first_index_eq)

lemma resolve_rix_eq:
  assumes "store self = NdArray c"
  shows "i \<le> length rix \<Longrightarrow> resolve_rix self rix i resids =
     (if set resids \<subseteq> set (vals self) \<and> i + length resids \<le> length rix
      then Inr (take i rix @ map (\<lambda>item. to_int32 (first_match (vals self) item)) resids
                  @ drop (i + length resids) rix)
      else Inl NoDataError)"
proof (induction resids arbitrary: rix i)
  case Nil
  then show ?case by simp
next
  case (Cons item resids)
  note w = where_first_eq [OF assms]
  show ?case
  proof (cases "item \<in> set (vals self) \<and> i < length rix")
    case False
    then show ?thesis
      by (auto simp: w bind_err_def except_IndexError_def store_rix_def)
  next
    case True
    let ?k = "to_int32 (first_match (vals self) item)"
    have "resolve_rix self rix i (item # resids) = resolve_rix self (rix[i := ?k]) (Suc i) resids"
      using True by (simp add: w bind_err_def except_IndexError_def store_rix_def)
    also have "\<dots> =
       (if set resids \<subseteq> set (vals self) \<and> Suc i + length resids \<le> length (rix[i := ?k])
        then Inr (take (Suc i) (rix[i := ?k])
                  @ map (\<lambda>item. to_int32 (first_match (vals self) item)) resids
                  @ drop (Suc i + length resids) (rix[i := ?k]))
        else Inl NoDataError)"
      using True by (intro Cons.IH) simp
    also have "take (Suc i) (rix[i := ?k]) = take i rix @ [?k]"
      using True by (simp add: take_Suc_conv_app_nth)
    also have "drop (Suc i + length resids) (rix[i := ?k]) = drop (Suc i + length resids) rix"
      by simp
    finally show ?thesis
      using True by simp
  qed
qed

lemma Resids_lookup:
  "cls self = Resids \<Longrightarrow> set_atoms E self ag resids = Resids_set_atoms E self ag resids"
  by (simp add: set_atoms_def set_level_def mro_unfold)

lemma to_int32_0_1: "to_int32 0 = 0" "to_int32 (Suc 0) = 1"
  by (simp_all add: to_int32_def)

text \<open>What \<^verbatim>\<open>Resids.set_atoms\<close> does on an array of resids, for any two lengths.\<close>

lemma Resids_set_atoms_eq:
  assumes "cls self = Resids" and "store self = NdArray c"
  shows "set_atoms E self ag resids =
           (if set resids \<subseteq> set (vals self) \<and> length resids \<le> length (ix ag)
            then (case topo self of
                    None \<Rightarrow> (Inl AttributeError, self)
                  | Some s \<Rightarrow>
                      (case move_atom E s (ix ag)
                              (map (\<lambda>item. to_int32 (first_match (vals self) item)) resids
                                 @ replicate (length (ix ag) - length resids) 0) of
                         Inl e \<Rightarrow> (Inl e, self)
                       | Inr s' \<Rightarrow> (Inr PyNone, self\<lparr>topo := Some s'\<rparr>)))
            else (Inl NoDataError, self))"
  unfolding Resids_lookup [OF assms(1)] Resids_set_atoms_def
  by (simp add: resolve_rix_eq [OF assms(2)] tt_call_def split: option.splits)

text \<open>
  Claim C2. \<^verbatim>\<open>Resids.set_atoms\<close> is given a resid for each atom of the group (its
  docstring), on an array of resids. Each input resid is resolved to the lowest index at
  which \<^verbatim>\<open>values\<close> holds it, so the first match wins on a tie. If some input resid is
  held nowhere, the call raises NoDataError and the object, with its topology, is as
  before: the result does not depend on \<^verbatim>\<open>move_atom\<close>. Otherwise it makes one call of
  \<^verbatim>\<open>move_atom\<close> with the group's atom indices and the resolved indices (stored as
  \<^verbatim>\<open>int32\<close>: the indices themselves when there are at most 2 to the power 31
  residues); the topology after the call is the one \<^verbatim>\<open>move_atom\<close> returns, and an
  error of \<^verbatim>\<open>move_atom\<close> is passed on. (With no topology attached there is no table
  to delegate to, and the call raises AttributeError once the resids are resolved.)
\<close>

theorem C2_resids_set_atoms:
  assumes "cls self = Resids" and "store self = NdArray c"
    and "length resids = length (ix ag)"
  shows "set_atoms E self ag resids =
           (if set resids \<subseteq> set (vals self)
            then (case topo self of
                    None \<Rightarrow> (Inl AttributeError, self)
                  | Some s \<Rightarrow>
                      (case move_atom E s (ix ag)
                              (map (\<lambda>item. to_int32 (first_match (vals self) item)) resids) of
                         Inl e \<Rightarrow> (Inl e, self)
                       | Inr s' \<Rightarrow> (Inr PyNone, self\<lparr>topo := Some s'\<rparr>)))
            else (Inl NoDataError, self))
         \<and> (\<forall>item. item \<in> set (vals self) \<longrightarrow>
               first_match (vals self) item < length (vals self)
               \<and> vals self ! first_match (vals self) item = item
               \<and> (\<forall>j<first_match (vals self) item. vals self ! j \<noteq> item)
               \<and> (length (vals self) \<le> 2 ^ 31 \<longrightarrow>
                    to_int32 (first_match (vals self) item) = int (first_match (vals self) item)))"
proof -
  have a: "set_atoms E self ag resids =
           (if set resids \<subseteq> set (vals self)
            then (case topo self of
                    None \<Rightarrow> (Inl AttributeError, self)
                  | Some s \<Rightarrow>
                      (case move_atom E s (ix ag)
                              (map (\<lambda>item. to_int32 (first_match (vals self) item)) resids) of
                         Inl e \<Rightarrow> (Inl e, self)
                       | Inr s' \<Rightarrow> (Inr PyNone, self\<lparr>topo := Some s'\<rparr>)))
            else (Inl NoDataError, self))"
    unfolding Resids_set_atoms_eq [OF assms(1,2)] using assms(3)
    by (cases "topo self") simp_all
  have b: "to_int32 (first_match (vals self) item) = int (first_match (vals self) item)"
    if "item \<in> set (vals self)" "length (vals self) \<le> 2 ^ 31" for item
    using first_match_props(1) [OF that(1)] that(2) by (intro to_int32_small) linarith
  show ?thesis
    using a b first_match_props by blast
qed

theorem C2_resids_set_atoms_witness:
  "set_atoms spec_tt resids_tie \<lparr>level = ''atom'', ix = [0, 3], univ = 0\<rparr> [Num 20, Num 10]
     = (Inr PyNone, resids_tie\<lparr>topo := Some \<lparr>AR = [1, 0, 0, 0], RS = [0, 0, 0]\<rparr>\<rparr>)
   \<and> set_atoms spec_tt resids_tie \<lparr>level = ''atom'', ix = [0, 3], univ = 0\<rparr> [Num 20, Num 99]
     = (Inl NoDataError, resids_tie)
   \<and> vals resids_tie = [Num 10, Num 20, Num 20]
   \<and> first_match (vals resids_tie) (Num 20) = 1"
proof -
  let ?g = "\<lparr>level = ''atom'', ix = [0, 3], univ = 0\<rparr>"
  have c: "cls resids_tie = Resids" and k: "store resids_tie = NdArray Inr"
    and n1: "length [Num 20, Num 10] = length (ix ?g)"
    and n2: "length [Num 20, Num 99] = length (ix ?g)"
    by (simp_all add: resids_tie_def init_def)
  have f: "first_match [Num 10, Num 20, Num 20] (Num 20) = 1"
    "first_match [Num 10, Num 20, Num 20] (Num 10) = 0"
    by (simp_all add: first_match_def)
  show ?thesis
    using C2_resids_set_atoms [OF c k n1, of spec_tt] C2_resids_set_atoms [OF c k n2, of spec_tt]
    by (simp add: resids_tie_def init_def f to_int32_0_1 tt_move_atom_def fancy_set_def
        bind_err_def)
qed

text \<open>
  Outside that docstring, with a number of resids other than the number of atoms: one
  atom and two resids that both match raise NoDataError, because the second store into
  \<^verbatim>\<open>rix\<close> is out of range inside the \<^verbatim>\<open>try\<close> block; two atoms and one resid move
  the second atom to residue 0, the filler of \<^verbatim>\<open>np.zeros\<close>.
\<close>

lemma Resids_set_atoms_other_lengths:
  "set_atoms spec_tt resids3 \<lparr>level = ''atom'', ix = [3], univ = 0\<rparr> [Num 20, Num 20]
     = (Inl NoDataError, resids3)
   \<and> set_atoms spec_tt resids3 \<lparr>level = ''atom'', ix = [0, 3], univ = 0\<rparr> [Num 20]
     = (Inr PyNone, resids3\<lparr>topo := Some \<lparr>AR = [1, 0, 0, 0], RS = [0, 0, 0]\<rparr>\<rparr>)"
proof -
  have c: "cls resids3 = Resids" and k: "store resids3 = NdArray Inr"
    by (simp_all add: resids3_def init_def)
  have f: "first_match [Num 10, Num 20, Num 30] (Num 20) = 1"
    by (simp add: first_match_def)
  show ?thesis
    unfolding Resids_set_atoms_eq [OF c k]
    by (simp add: resids3_def init_def f to_int32_0_1 tt_move_atom_def fancy_set_def
        bind_err_def)
qed

subsection \<open>The adjacency map of connectivity attributes\<close>

lemma entries_dd_append:
  "entries (dd_append bd a b) k = (if k = a then entries bd a @ [b] else entries bd k)"
  by (induction bd) (auto simp: entries_def)

lemma keys_dd_append: "fst ` set (dd_append bd a b) = insert a (fst ` set bd)"
proof (induction bd)
  case Nil
  then show ?case by simp
next
  case (Cons p bd)
  obtain k l where p: "p = (k, l)" by (cases p)
  show ?case
  proof (cases "k = a")
    case True
    then show ?thesis by (simp add: p)
  next
    case False
    then show ?thesis using Cons by (simp add: p insert_commute)
  qed
qed

lemma distinct_dd_append:
  "distinct (map fst bd) \<Longrightarrow> distinct (map fst (dd_append bd a b))"
proof (induction bd)
  case Nil
  then show ?case by simp
next
  case (Cons p bd)
  obtain k l where p: "p = (k, l)" by (cases p)
  show ?case
  proof (cases "k = a")
    case True
    then show ?thesis using Cons.prems by (simp add: p)
  next
    case False
    have "k \<notin> fst ` set (dd_append bd a b)"
      unfolding keys_dd_append using False Cons.prems by (simp add: p)
    then show ?thesis using False Cons by (simp add: p)
  qed
qed

lemma entries_add_tuple:
  "set (entries (add_tuple b bd) k) = set (entries bd k) \<union> (if k \<in> set b then {b} else {})"
proof -
  have "set (entries (fold (\<lambda>a d. dd_append d a b) as bd) k) =
          set (entries bd k) \<union> (if k \<in> set as then {b} else {})" for as
    by (induction as arbitrary: bd) (simp_all add: entries_dd_append)
  then show ?thesis by (simp add: add_tuple_def)
qed

lemma keys_add_tuple: "fst ` set (add_tuple b bd) = set b \<union> fst ` set bd"
proof -
  have "fst ` set (fold (\<lambda>a d. dd_append d a b) as bd) = set as \<union> fst ` set bd" for as
    by (induction as arbitrary: bd) (simp_all add: keys_dd_append)
  then show ?thesis by (simp add: add_tuple_def)
qed

lemma distinct_add_tuple:
  "distinct (map fst bd) \<Longrightarrow> distinct (map fst (add_tuple b bd))"
proof -
  have "distinct (map fst bd) \<Longrightarrow> distinct (map fst (fold (\<lambda>a d. dd_append d a b) as bd))" for as
    by (induction as arbitrary: bd) (simp_all add: distinct_dd_append)
  then show "distinct (map fst bd) \<Longrightarrow> distinct (map fst (add_tuple b bd))"
    by (simp add: add_tuple_def)
qed

lemma set_flip_tuple: "set (flip_tuple t) = set t"
  by (simp add: flip_tuple_def)

lemma flip_tuple_not_less: "t \<noteq> [] \<Longrightarrow> \<not> hd (flip_tuple t) < last (flip_tuple t)"
  by (simp add: flip_tuple_def hd_rev last_rev)

lemma orient_Tup: "t \<noteq> [] \<Longrightarrow> orient (Tup t) = Inr (flip_tuple t)"
  by (simp add: flip_tuple_def)

lemma build_bd_Tup:
  "[] \<notin> set ts \<Longrightarrow>
     build_bd (map Tup ts) bd = Inr (fold (\<lambda>t d. add_tuple (flip_tuple t) d) ts bd)"
proof (induction ts arbitrary: bd)
  case Nil
  then show ?case by simp
next
  case (Cons t ts)
  then have "t \<noteq> []" and "[] \<notin> set ts"
    by auto
  then show ?case
    using Cons.IH by (simp add: flip_tuple_def add_tuple_def)
qed

lemma entries_built:
  "set (entries (fold (\<lambda>t d. add_tuple (flip_tuple t) d) ts bd) k) =
     set (entries bd k) \<union> flip_tuple ` {t \<in> set ts. k \<in> set t}"
proof (induction ts arbitrary: bd)
  case Nil
  then show ?case by simp
next
  case (Cons t ts)
  have "{u \<in> set (t # ts). k \<in> set u} =
          (if k \<in> set t then {t} else {}) \<union> {u \<in> set ts. k \<in> set u}"
    by auto
  then have "flip_tuple ` {u \<in> set (t # ts). k \<in> set u} =
          (if k \<in> set t then {flip_tuple t} else {}) \<union> flip_tuple ` {u \<in> set ts. k \<in> set u}"
    by (simp only: image_Un) simp
  then show ?case
    by (simp only: fold_simps Cons.IH entries_add_tuple set_flip_tuple Un_assoc)
qed

lemma keys_built:
  "fst ` set (fold (\<lambda>t d. add_tuple (flip_tuple t) d) ts bd) =
     fst ` set bd \<union> \<Union> (set ` set ts)"
proof (induction ts arbitrary: bd)
  case Nil
  then show ?case by simp
next
  case (Cons t ts)
  have "fst ` set (fold (\<lambda>t d. add_tuple (flip_tuple t) d) (t # ts) bd) =
          fst ` set (add_tuple (flip_tuple t) bd) \<union> \<Union> (set ` set ts)"
    by (simp only: fold_simps Cons.IH)
  also have "\<dots> = fst ` set bd \<union> \<Union> (set ` set (t # ts))"
    by (simp add: keys_add_tuple set_flip_tuple Un_ac)
  finally show ?case .
qed

lemma distinct_built:
  "distinct (map fst bd) \<Longrightarrow>
     distinct (map fst (fold (\<lambda>t d. add_tuple (flip_tuple t) d) ts bd))"
  by (induction ts arbitrary: bd) (simp_all add: distinct_add_tuple)

text \<open>
  Claim C4 does not hold of the code. The comment in \<^verbatim>\<open>_bondDict\<close> and the claim both
  want the first index of a registered tuple to be less than the last; the test
  \<^verbatim>\<open>if b[0] < b[-1]: b = b[::-1]\<close> reverses exactly the tuples that already are so.
  The bond (0, 1) is registered as (1, 0), and both (4, 10, 8) and (8, 10, 4) are oriented
  to (8, 10, 4), where the comment asks for (4, 10, 8).
\<close>

theorem C4_orientation_at_build:
  "Bonds_bondDict (init Bonds [Tup [0, 1]] :: transtable attr)
     = (Inr [(1, [[1, 0]]), (0, [[1, 0]])],
        (init Bonds [Tup [0, 1]])\<lparr>cache := Some [(1, [[1, 0]]), (0, [[1, 0]])]\<rparr>)
   \<and> orient (Tup [0, 1]) = Inr [1, 0]
   \<and> orient (Tup [1, 0]) = Inr [1, 0]
   \<and> orient (Tup [4, 10, 8]) = Inr [8, 10, 4]
   \<and> orient (Tup [8, 10, 4]) = Inr [8, 10, 4]
   \<and> Bonds_bondDict (init_list Bonds [Tup [0, 1]] :: transtable attr)
     = (Inr [(1, [[1, 0]]), (0, [[1, 0]])],
        (init_list Bonds [Tup [0, 1]])\<lparr>cache := Some [(1, [[1, 0]]), (0, [[1, 0]])]\<rparr>)"
  by (simp add: Bonds_bondDict_def init_def init_list_def)

text \<open>
  Claim C5. On a connectivity attribute with nothing cached whose stored tuples are all
  non-empty, the lazy build returns a map and caches it; for every stored tuple \<open>t\<close>
  whose first index is less than its last, the build orients \<open>t\<close> to its reverse, the
  reverse stands under every atom index of \<open>t\<close>, and \<open>t\<close> itself stands under no key
  of the map.
\<close>

theorem C5_reversed_tuple_registered:
  assumes "cache self = None" and "vals self = map Tup ts" and "[] \<notin> set ts"
    and "t \<in> set ts" and "hd t < last t"
  shows "\<exists>bd. Bonds_bondDict self = (Inr bd, self\<lparr>cache := Some bd\<rparr>)
           \<and> orient (Tup t) = Inr (rev t)
           \<and> (\<forall>a\<in>set t. rev t \<in> set (entries bd a))
           \<and> (\<forall>a. t \<notin> set (entries bd a))"
proof -
  let ?bd = "fold (\<lambda>t d. add_tuple (flip_tuple t) d) ts []"
  have e: "set (entries ?bd k) = flip_tuple ` {t \<in> set ts. k \<in> set t}" for k
    unfolding entries_built by (simp add: entries_def)
  have t: "t \<noteq> []"
    using assms(3,4) by auto
  have f: "flip_tuple t = rev t"
    using assms(5) by (simp add: flip_tuple_def)
  have o: "orient (Tup t) = Inr (rev t)"
    using t assms(5) by simp
  have 1: "Bonds_bondDict self = (Inr ?bd, self\<lparr>cache := Some ?bd\<rparr>)"
    using assms(1,2) by (simp add: Bonds_bondDict_def build_bd_Tup [OF assms(3)])
  have 2: "rev t \<in> set (entries ?bd a)" if "a \<in> set t" for a
  proof -
    have "t \<in> {t \<in> set ts. a \<in> set t}"
      using that assms(4) by simp
    then have "flip_tuple t \<in> flip_tuple ` {t \<in> set ts. a \<in> set t}"
      by (rule imageI)
    then show ?thesis
      by (simp only: e f)
  qed
  have 3: "t \<notin> set (entries ?bd a)" for a
  proof
    assume "t \<in> set (entries ?bd a)"
    then obtain u where u: "u \<in> {t \<in> set ts. a \<in> set t}" and tu: "t = flip_tuple u"
      unfolding e by (rule imageE) (rule that)
    from u assms(3) have "u \<noteq> []"
      by auto
    from flip_tuple_not_less [OF this] tu assms(5) show False
      by simp
  qed
  show ?thesis
  proof (intro exI conjI ballI allI)
    show "Bonds_bondDict self = (Inr ?bd, self\<lparr>cache := Some ?bd\<rparr>)" by (rule 1)
    show "orient (Tup t) = Inr (rev t)" by (rule o)
    show "rev t \<in> set (entries ?bd a)" if "a \<in> set t" for a by (rule 2 [OF that])
    show "t \<notin> set (entries ?bd a)" for a by (rule 3)
  qed
qed

theorem C5_reversed_tuple_registered_witness:
  "Bonds_bondDict bonds2 = (Inr bd2, bonds2\<lparr>cache := Some bd2\<rparr>)
   \<and> entries bd2 0 = [[1, 0]] \<and> entries bd2 1 = [[1, 0], [2, 1]] \<and> entries bd2 2 = [[2, 1]]"
proof -
  have a: "cache bonds2 = None" and v: "vals bonds2 = map Tup [[0, 1], [1, 2]]"
    and n: "[] \<notin> set [[0, 1], [1, 2 :: nat]]" and m: "[0, 1] \<in> set [[0, 1], [1, 2 :: nat]]"
    and h: "hd [0, 1 :: nat] < last [0, 1]"
    by (simp_all add: bonds2_def init_def)
  have b: "Bonds_bondDict bonds2 = (Inr bd2, bonds2\<lparr>cache := Some bd2\<rparr>)"
    by (simp add: Bonds_bondDict_def bonds2_def init_def bd2_def)
  have c: "entries bd2 0 = [[1, 0]] \<and> entries bd2 1 = [[1, 0], [2, 1]] \<and> entries bd2 2 = [[2, 1]]"
    by (simp add: entries_def bd2_def)
  from C5_reversed_tuple_registered [OF a v n m h] b c show ?thesis
    by (intro conjI) simp_all
qed

lemma connectivity_len:
  "cls self \<in> {Bonds, Angles, Dihedrals, Impropers} \<Longrightarrow> len self = Bonds_len self"
  by (auto simp: len_def mro_unfold)

text \<open>
  Claim C6, amended. For every connectivity attribute, \<^verbatim>\<open>len()\<close> is the size of the
  adjacency map: of the cached map when there is one, and otherwise of the map it builds
  and caches. In the second case, when every stored tuple is non-empty, the size is the
  number of distinct atom indices occurring in the stored tuples, not the number of
  tuples.
\<close>

theorem C6_len_counts_atoms_of_built_map:
  assumes "cls self \<in> {Bonds, Angles, Dihedrals, Impropers}"
  shows "(cache self = None \<and> vals self = map Tup ts \<and> [] \<notin> set ts \<longrightarrow>
            (\<exists>bd. len self = (Inr (card (\<Union> (set ` set ts))), self\<lparr>cache := Some bd\<rparr>)))
       \<and> (cache self = Some bd0 \<longrightarrow> len self = (Inr (length bd0), self))"
proof -
  have 1: "\<exists>bd. len self = (Inr (card (\<Union> (set ` set ts))), self\<lparr>cache := Some bd\<rparr>)"
    if c: "cache self = None" and v: "vals self = map Tup ts" and n: "[] \<notin> set ts"
  proof -
    let ?bd = "fold (\<lambda>t d. add_tuple (flip_tuple t) d) ts []"
    have r: "build_bd (map Tup ts) [] = Inr ?bd"
      by (rule build_bd_Tup [OF n])
    have k: "fst ` set ?bd = \<Union> (set ` set ts)"
      unfolding keys_built by simp
    have d: "distinct (map fst ?bd)"
      by (rule distinct_built) simp
    have "length ?bd = card (fst ` set ?bd)"
      using distinct_card [OF d] by simp
    then have "len self = (Inr (card (\<Union> (set ` set ts))), self\<lparr>cache := Some ?bd\<rparr>)"
      using c v r unfolding k
      by (simp add: connectivity_len [OF assms] Bonds_len_def Bonds_bondDict_def)
    then show ?thesis by (rule exI)
  qed
  have 2: "len self = (Inr (length bd0), self)" if "cache self = Some bd0"
    using that by (simp add: connectivity_len [OF assms] Bonds_len_def Bonds_bondDict_def)
  from 1 2 show ?thesis by (intro conjI impI) simp_all
qed

theorem C6_len_counts_atoms_of_built_map_witness:
  "len bonds2 = (Inr 3, bonds2\<lparr>cache := Some bd2\<rparr>)
   \<and> card (\<Union> (set ` set [[0, 1], [1, 2 :: nat]])) = 3
   \<and> length (vals bonds2) = 2"
proof -
  have c: "cls bonds2 \<in> {Bonds, Angles, Dihedrals, Impropers}"
    and a: "cache bonds2 = None \<and> vals bonds2 = map Tup [[0, 1], [1, 2]]
              \<and> [] \<notin> set [[0, 1], [1, 2 :: nat]]"
    by (simp_all add: bonds2_def init_def)
  have s: "\<Union> (set ` set [[0, 1], [1, 2 :: nat]]) = {0, 1, 2}"
    by auto
  have l: "len bonds2 = (Inr (length bd2), bonds2\<lparr>cache := Some bd2\<rparr>)"
    by (simp add: len_def mro_unfold Bonds_len_def Bonds_bondDict_def bonds2_def init_def
        bd2_def)
  show ?thesis
    using C6_len_counts_atoms_of_built_map [OF c, of "[[0, 1], [1, 2]]"] a l
    by (simp add: s bd2_def bonds2_def init_def)
qed

text \<open>
  Claim C6 as stated (for every instance) fails once the map is cached and the values
  change: after \<^verbatim>\<open>len()\<close> has built the map for the bonds (0, 1) and (1, 2), writing
  the bond (5, 6) over the second one leaves \<^verbatim>\<open>len()\<close> at 3, while the stored tuples
  now hold the four atoms 0, 1, 5, 6.
\<close>

theorem C6_len_stale_map_counterexample:
  "len bonds2 = (Inr 3, bonds2\<lparr>cache := Some bd2\<rparr>)
   \<and> setitem spec_tt (bonds2\<lparr>cache := Some bd2\<rparr>) \<lparr>level = ''atom'', ix = [1], univ = 0\<rparr> [Tup [5, 6]]
       = (Inr PyNone, bonds2\<lparr>vals := [Tup [0, 1], Tup [5, 6]], cache := Some bd2\<rparr>)
   \<and> len (bonds2\<lparr>vals := [Tup [0, 1], Tup [5, 6]], cache := Some bd2\<rparr>)
       = (Inr 3, bonds2\<lparr>vals := [Tup [0, 1], Tup [5, 6]], cache := Some bd2\<rparr>)
   \<and> card (set [0, 1 :: nat] \<union> set [5, 6]) = 4"
  by (simp add: len_def mro_unfold Bonds_len_def Bonds_bondDict_def bonds2_def init_def bd2_def
      setitem_def set_atoms_def set_level_def AtomAttr_set_atoms_def assign_def fancy_set_def
      bind_err_def)

text \<open>
  The cached map can also grow through a read: \<^verbatim>\<open>get_atoms\<close> looks every atom of the
  group up in the \<^verbatim>\<open>defaultdict\<close>, which inserts an atom that has no bond, so a later
  \<^verbatim>\<open>len()\<close> counts that atom too.
\<close>

lemma read_inserts_key:
  "get_atoms spec_tt bonds2 \<lparr>level = ''atom'', ix = [5], univ = 7\<rparr>
     = (Inr (TopologyGroup [] 7 ''bond''), bonds2\<lparr>cache := Some (bd2 @ [(5, [])])\<rparr>)
   \<and> fst (len (bonds2\<lparr>cache := Some (bd2 @ [(5, [])])\<rparr>)) = Inr 4"
  by (simp add: get_atoms_def get_level_def mro_unfold Bonds_get_atoms_def Bonds_bondDict_def
      dd_get_def len_def Bonds_len_def bonds2_def init_def bd2_def)

end
